theory Spec2Isabelle
  imports Complex_Main
begin

section \<open>Strings\<close>

text \<open>
  Python strings are modelled as \<open>string\<close>. The methods \<open>lower\<close>, \<open>upper\<close> and
  \<open>strip\<close> are modelled on ASCII text: the 26 letters change case, and the
  whitespace characters are the ASCII ones for which \<open>str.isspace\<close> holds
  (codes 9 to 13 and 28 to 32). Characters outside ASCII are left as they are.
\<close>

definition ascii_uppercase :: string where
  "ascii_uppercase = ''ABCDEFGHIJKLMNOPQRSTUVWXYZ''"

definition ascii_lowercase :: string where
  "ascii_lowercase = ''abcdefghijklmnopqrstuvwxyz''"

definition lower_char :: "char \<Rightarrow> char" where
  "lower_char c = (case map_of (zip ascii_uppercase ascii_lowercase) c of Some l \<Rightarrow> l | None \<Rightarrow> c)"

definition upper_char :: "char \<Rightarrow> char" where
  "upper_char c = (case map_of (zip ascii_lowercase ascii_uppercase) c of Some u \<Rightarrow> u | None \<Rightarrow> c)"

definition lower :: "string \<Rightarrow> string" where
  "lower s = map lower_char s"

definition upper :: "string \<Rightarrow> string" where
  "upper s = map upper_char s"

definition isspace :: "char \<Rightarrow> bool" where
  "isspace c = (c \<in> set [CHR 0x09, CHR 0x0A, CHR 0x0B, CHR 0x0C, CHR 0x0D,
                          CHR 0x1C, CHR 0x1D, CHR 0x1E, CHR 0x1F, CHR 0x20])"

definition strip :: "string \<Rightarrow> string" where
  "strip s = rev (dropWhile isspace (rev (dropWhile isspace s)))"

text \<open>\<open>s.split(sep)\<close> for a one-character separator: never the empty list.\<close>

fun split_str :: "char \<Rightarrow> string \<Rightarrow> string list" where
  "split_str sep [] = [[]]"
| "split_str sep (c # cs) =
     (if c = sep then [] # split_str sep cs
      else (case split_str sep cs of [] \<Rightarrow> [[c]] | w # ws \<Rightarrow> (c # w) # ws))"

text \<open>The f-string \<open>'{s}'\<close>: the text between two apostrophes.\<close>

definition quoted :: "string \<Rightarrow> string" where
  "quoted s = [CHR 0x27] @ s @ [CHR 0x27]"

text \<open>Truthiness of an \<open>Optional[str]\<close>: neither \<open>None\<close> nor the empty string.\<close>

definition truthy :: "string option \<Rightarrow> bool" where
  "truthy v = (case v of None \<Rightarrow> False | Some s \<Rightarrow> s \<noteq> [])"

text \<open>\<open>d[k] = v\<close> on a dict kept as an association list in insertion order.\<close>

fun dict_set :: "'k \<Rightarrow> 'v \<Rightarrow> ('k \<times> 'v) list \<Rightarrow> ('k \<times> 'v) list" where
  "dict_set k v [] = [(k, v)]"
| "dict_set k v ((k', v') # d) = (if k' = k then (k, v) # d else (k', v') # dict_set k v d)"

section \<open>The dialect table (sql\_parser.py)\<close>

definition DIALECT_MAP :: "(string \<times> string option) list" where
  "DIALECT_MAP =
    [(''postgres'', Some ''postgres''),
     (''postgresql'', Some ''postgres''),
     (''sqlite'', Some ''sqlite''),
     (''duckdb'', Some ''duckdb''),
     (''bigquery'', Some ''bigquery''),
     (''snowflake'', Some ''snowflake''),
     (''clickhouse'', Some ''clickhouse''),
     (''mysql'', Some ''mysql''),
     ('''', None)]"

definition BIGQUERY_FUNCTIONS :: "string set" where
  "BIGQUERY_FUNCTIONS = set
    [''SAFE_DIVIDE'', ''SAFE_MULTIPLY'', ''SAFE_NEGATE'', ''SAFE_ADD'', ''SAFE_SUBTRACT'',
     ''DATE_DIFF'', ''DATE_ADD'', ''DATE_SUB'', ''DATE_TRUNC'', ''DATETIME_DIFF'',
     ''TIMESTAMP_DIFF'', ''TIMESTAMP_ADD'', ''TIMESTAMP_SUB'', ''TIMESTAMP_TRUNC'',
     ''PARSE_DATE'', ''PARSE_DATETIME'', ''PARSE_TIMESTAMP'', ''FORMAT_DATE'',
     ''ARRAY_AGG'', ''ARRAY_LENGTH'', ''ARRAY_TO_STRING'', ''GENERATE_ARRAY'',
     ''STRUCT'', ''UNNEST'', ''ARRAY'', ''CURRENT_DATE'', ''CURRENT_TIMESTAMP'',
     ''IFNULL'', ''NULLIF'', ''COALESCE'', ''IF'', ''CASE'',
     ''REGEXP_CONTAINS'', ''REGEXP_EXTRACT'', ''REGEXP_REPLACE'',
     ''JSON_EXTRACT'', ''JSON_EXTRACT_SCALAR'', ''JSON_QUERY'', ''JSON_VALUE'',
     ''ST_GEOGPOINT'', ''ST_DISTANCE'', ''ST_CONTAINS'', ''ST_INTERSECTS'',
     ''APPROX_COUNT_DISTINCT'', ''APPROX_QUANTILES'', ''APPROX_TOP_COUNT'',
     ''FARM_FINGERPRINT'', ''MD5'', ''SHA256'', ''SHA512'',
     ''NET.IP_FROM_STRING'', ''NET.SAFE_IP_FROM_STRING'', ''NET.IP_TO_STRING'']"

definition SNOWFLAKE_FUNCTIONS :: "string set" where
  "SNOWFLAKE_FUNCTIONS = set
    [''DATEADD'', ''DATEDIFF'', ''DATE_TRUNC'', ''DATE_PART'', ''DAYNAME'', ''MONTHNAME'',
     ''TIMEADD'', ''TIMEDIFF'', ''TIMESTAMPADD'', ''TIMESTAMPDIFF'',
     ''TO_DATE'', ''TO_TIMESTAMP'', ''TO_TIME'', ''TO_CHAR'', ''TO_VARCHAR'',
     ''TRY_TO_DATE'', ''TRY_TO_TIMESTAMP'', ''TRY_TO_NUMBER'',
     ''ARRAY_AGG'', ''ARRAY_SIZE'', ''ARRAY_SLICE'', ''ARRAY_CAT'', ''ARRAY_COMPACT'',
     ''OBJECT_CONSTRUCT'', ''OBJECT_KEYS'', ''OBJECT_AGG'',
     ''PARSE_JSON'', ''TRY_PARSE_JSON'', ''GET_PATH'', ''FLATTEN'',
     ''IFF'', ''IFNULL'', ''NVL'', ''NVL2'', ''NULLIF'', ''COALESCE'', ''ZEROIFNULL'',
     ''REGEXP_LIKE'', ''REGEXP_REPLACE'', ''REGEXP_SUBSTR'', ''REGEXP_COUNT'',
     ''SPLIT'', ''SPLIT_PART'', ''STRTOK'', ''STRTOK_TO_ARRAY'',
     ''HASH'', ''MD5'', ''SHA1'', ''SHA2'',
     ''LISTAGG'', ''WITHIN GROUP'', ''QUALIFY'',
     ''RATIO_TO_REPORT'', ''CUME_DIST'', ''PERCENT_RANK'', ''NTILE'',
     ''CURRENT_DATABASE'', ''CURRENT_SCHEMA'', ''CURRENT_WAREHOUSE'',
     ''SYSTEM$TYPEOF'', ''TYPEOF'', ''IS_INTEGER'', ''IS_DECIMAL'']"

definition COMMON_FUNCTIONS :: "string set" where
  "COMMON_FUNCTIONS = set
    [''COUNT'', ''SUM'', ''AVG'', ''MIN'', ''MAX'', ''ABS'', ''ROUND'', ''CEIL'', ''FLOOR'',
     ''UPPER'', ''LOWER'', ''TRIM'', ''LTRIM'', ''RTRIM'', ''LENGTH'', ''SUBSTRING'', ''CONCAT'',
     ''REPLACE'', ''CAST'', ''CONVERT'', ''COALESCE'', ''NULLIF'', ''IFNULL'',
     ''NOW'', ''CURRENT_DATE'', ''CURRENT_TIME'', ''CURRENT_TIMESTAMP'',
     ''YEAR'', ''MONTH'', ''DAY'', ''HOUR'', ''MINUTE'', ''SECOND'',
     ''ROW_NUMBER'', ''RANK'', ''DENSE_RANK'', ''LAG'', ''LEAD'', ''FIRST_VALUE'', ''LAST_VALUE'',
     ''OVER'', ''PARTITION'', ''ORDER'']"

text \<open>\<open>SQLParser._normalize_dialect\<close>; \<open>None\<close> stands for auto-detection.\<close>

definition normalize_dialect :: "string \<Rightarrow> string option" where
  "normalize_dialect dialect =
     (if dialect = [] then None
      else (let dialect_lower = strip (lower dialect)
            in (case map_of DIALECT_MAP dialect_lower of
                  Some v \<Rightarrow> v
                | None \<Rightarrow> Some dialect_lower)))"

text \<open>\<open>SQLParser.get_dialect_functions\<close>.\<close>

definition get_dialect_functions :: "string \<Rightarrow> string set" where
  "get_dialect_functions dialect =
     (let normalized = normalize_dialect dialect;
          functions = COMMON_FUNCTIONS
      in if normalized = Some ''bigquery'' then functions \<union> BIGQUERY_FUNCTIONS
         else if normalized = Some ''snowflake'' then functions \<union> SNOWFLAKE_FUNCTIONS
         else functions)"

section \<open>The structural tree and the parsing library\<close>

text \<open>
  The tree comes from the third-party library sqlglot. The engine reads it only through
  \<open>find_all\<close> for five node kinds and through a few attributes of the nodes found, so
  a tree is modelled as the lists of nodes \<open>find_all\<close> yields for each kind, each
  node carrying the attributes the engine reads. A missing qualifier is the empty
  string, as sqlglot reports it.
\<close>

record Table =
  name :: string
  db :: string
  catalog :: string

record Column =
  name :: string
  table :: string

text \<open>
  A function node: the name of its class, and the attributes \<open>name\<close> and
  \<open>sql_name()\<close>, each \<open>None\<close> when \<open>hasattr\<close> is false.
\<close>

record Func =
  class_name :: string
  name :: "string option"
  sql_name :: "string option"

text \<open>
  An alias node: its attribute \<open>alias\<close> (here \<open>alias_name\<close>), then \<open>this.name\<close> (\<open>None\<close> when \<open>this\<close> has no
  attribute \<open>name\<close>) and \<open>str(this)\<close>.
\<close>

record Alias =
  alias_name :: string
  this_name :: "string option"
  this_str :: string

text \<open>An operand of an equality: a column reference or any other expression.\<close>

datatype operand = ColumnRef Column | OtherExpr

text \<open>
  A join node: the name of the joined table when \<open>this\<close> is a table node (else
  \<open>None\<close>), and the pairs (left, right) of the equalities found in its ON clause
  (\<open>None\<close> when there is no ON clause).
\<close>

record Join =
  this_table :: "string option"
  on_eqs :: "(operand \<times> operand) list option"

record tree =
  find_all_Table :: "Table list"
  find_all_Column :: "Column list"
  find_all_Func :: "Func list"
  find_all_Alias :: "Alias list"
  find_all_Join :: "Join list"

text \<open>
  Exceptions as values: \<open>sqlglot.errors.ParseError\<close>, and any other exception (sqlglot
  raises \<open>TokenError\<close> from its tokenizer and \<open>ValueError\<close> for an unknown dialect
  name; neither is a \<open>ParseError\<close>).
\<close>

datatype exn = ParseError | OtherError

text \<open>
  The two ways the engine calls the library: \<open>parse_one(sql, read=d)\<close> (with
  \<open>read = None\<close> for the call \<open>parse_one(sql)\<close>) and
  \<open>parse_one(sql, error_level=ErrorLevel.IGNORE)\<close>. The library is a parameter of
  the model.
\<close>

record sqlglot =
  parse_one :: "string \<Rightarrow> string option \<Rightarrow> exn + tree"
  parse_one_ignore :: "string \<Rightarrow> exn + tree"

section \<open>Result objects (models.py)\<close>

record IdentifierSet =
  tables :: "string list"
  columns :: "string list"
  "functions" :: "string list"
  aliases :: "(string \<times> string) list"

text \<open>
  \<open>hallucination_score\<close> is the exact quotient; the Python float is that quotient
  correctly rounded.
\<close>

record HallucinationReport =
  phantom_tables :: "string list"
  phantom_columns :: "string list"
  phantom_functions :: "string list"
  total_hallucinations :: nat
  hallucination_score :: real

text \<open>The constructor with \<open>__post_init__\<close>, which overwrites \<open>total_hallucinations\<close>.\<close>

definition HallucinationReport_init ::
  "string list \<Rightarrow> string list \<Rightarrow> string list \<Rightarrow> real \<Rightarrow> HallucinationReport" where
  "HallucinationReport_init pt pc pf score =
     \<lparr>phantom_tables = pt, phantom_columns = pc, phantom_functions = pf,
      total_hallucinations = length pt + length pc + length pf,
      hallucination_score = score\<rparr>"

record ValidationResult =
  is_valid :: bool
  errors :: "string list"
  warnings :: "string list"
  hallucination_report :: "HallucinationReport option"

section \<open>The schema model\<close>

text \<open>
  The schema object is not part of the engine (its parameter is typed \<open>Any\<close>); the
  engine uses the method \<open>has_table\<close>, the dict \<open>tables\<close> from table names to
  table objects, each with its \<open>columns\<close> (\<open>name\<close>, \<open>foreign_key\<close>), and the
  optional attribute \<open>functions\<close> (\<open>None\<close> when \<open>hasattr\<close> is false). The method
  is a field of the record: the engine's results are stated for whatever it answers.
\<close>

record ColumnInfo =
  name :: string
  foreign_key :: "string option"

record TableInfo =
  columns :: "ColumnInfo list"

record SchemaSnapshot =
  tables :: "(string \<times> TableInfo) list"
  has_table :: "string \<Rightarrow> bool"
  "functions" :: "string list option"

section \<open>The parser (sql\_parser.py)\<close>

record ParsedSQL =
  ast :: tree
  dialect :: string
  tables :: "string list"
  columns :: "string list"
  "functions" :: "string list"
  aliases :: "(string \<times> string) list"
  raw_sql :: string

record SQLParser =
  default_dialect :: "string option"

definition SQLParser_init :: "string \<Rightarrow> SQLParser" where
  "SQLParser_init d = \<lparr>default_dialect = normalize_dialect d\<rparr>"

text \<open>Python's \<open>a or b\<close> on optional strings.\<close>

definition or_else :: "string option \<Rightarrow> string option \<Rightarrow> string option" where
  "or_else a b = (if truthy a then a else b)"

text \<open>
  \<open>SQLParser._extract_all_identifiers\<close>. \<open>list(set(xs))\<close> removes duplicates and
  leaves the order to the hash table; the model keeps one order (that of \<open>remdups\<close>).
\<close>

definition table_full_name :: "Table \<Rightarrow> string" where
  "table_full_name t =
     (let table_name = Table.name t;
          table_name = (if db t \<noteq> [] then db t @ ''.'' @ table_name else table_name);
          table_name = (if catalog t \<noteq> [] then catalog t @ ''.'' @ table_name else table_name)
      in table_name)"

definition column_full_name :: "Column \<Rightarrow> string" where
  "column_full_name col =
     (let col_name = Column.name col
      in if table col \<noteq> [] then table col @ ''.'' @ col_name else col_name)"

definition func_full_name :: "Func \<Rightarrow> string" where
  "func_full_name func =
     (let func_name = upper (class_name func)
      in if truthy (Func.name func) then upper (case Func.name func of Some n \<Rightarrow> n | None \<Rightarrow> [])
         else (case sql_name func of Some n \<Rightarrow> upper n | None \<Rightarrow> func_name))"

definition alias_binding :: "Alias \<Rightarrow> (string \<times> string) list \<Rightarrow> (string \<times> string) list" where
  "alias_binding a al =
     (case this_name a of
        Some n \<Rightarrow> dict_set (alias_name a) n al
      | None \<Rightarrow> dict_set (alias_name a) (this_str a) al)"

definition extract_all_identifiers :: "tree \<Rightarrow> IdentifierSet" where
  "extract_all_identifiers t =
     (let tables = map table_full_name (find_all_Table t);
          columns = map column_full_name (find_all_Column t);
          functions = map func_full_name (find_all_Func t);
          aliases = fold alias_binding (find_all_Alias t) []
      in \<lparr>IdentifierSet.tables = remdups tables,
          columns = remdups columns,
          functions = remdups functions,
          aliases = aliases\<rparr>)"

text \<open>One call of the library as \<open>parse\<close> and the fallback loop make it.\<close>

definition call_parse_one :: "sqlglot \<Rightarrow> string \<Rightarrow> string option \<Rightarrow> exn + tree" where
  "call_parse_one lib sql d = (if truthy d then parse_one lib sql d else parse_one lib sql None)"

definition fallback_dialects :: "string option list" where
  "fallback_dialects = [Some ''postgres'', Some ''bigquery'', Some ''snowflake'', None]"

text \<open>
  The loop of \<open>SQLParser._parse_with_fallback\<close>: the first attempt that returns
  ends the loop; the bare \<open>except\<close> swallows every exception of an attempt.
\<close>

fun try_fallbacks :: "sqlglot \<Rightarrow> string \<Rightarrow> string option \<Rightarrow> string option list \<Rightarrow> tree option" where
  "try_fallbacks lib sql d [] = None"
| "try_fallbacks lib sql d (fallback # rest) =
     (if fallback = d then try_fallbacks lib sql d rest
      else (case call_parse_one lib sql fallback of
              Inr t \<Rightarrow> Some t
            | Inl e \<Rightarrow> try_fallbacks lib sql d rest))"

text \<open>After the loop the error-tolerant call stands outside any \<open>try\<close>.\<close>

definition parse_with_fallback :: "sqlglot \<Rightarrow> string \<Rightarrow> string option \<Rightarrow> exn + tree" where
  "parse_with_fallback lib sql d =
     (case try_fallbacks lib sql d fallback_dialects of
        Some t \<Rightarrow> Inr t
      | None \<Rightarrow> parse_one_ignore lib sql)"

text \<open>
  \<open>SQLParser.parse\<close>: only a \<open>ParseError\<close> of the first attempt leads to the
  fallback; any other exception leaves the method.
\<close>

definition parse_ast :: "sqlglot \<Rightarrow> string \<Rightarrow> string option \<Rightarrow> exn + tree" where
  "parse_ast lib sql normalized_dialect =
     (case call_parse_one lib sql normalized_dialect of
        Inr t \<Rightarrow> Inr t
      | Inl ParseError \<Rightarrow> parse_with_fallback lib sql normalized_dialect
      | Inl OtherError \<Rightarrow> Inl OtherError)"

definition parse :: "sqlglot \<Rightarrow> SQLParser \<Rightarrow> string \<Rightarrow> string \<Rightarrow> exn + ParsedSQL" where
  "parse lib self sql d =
     (let normalized_dialect = or_else (normalize_dialect d) (default_dialect self)
      in (case parse_ast lib sql normalized_dialect of
            Inl e \<Rightarrow> Inl e
          | Inr t \<Rightarrow>
              (let identifiers = extract_all_identifiers t
               in Inr \<lparr>ast = t,
                       dialect = (case or_else normalized_dialect (Some ''auto'') of
                                    Some n \<Rightarrow> n | None \<Rightarrow> []),
                       tables = IdentifierSet.tables identifiers,
                       columns = IdentifierSet.columns identifiers,
                       functions = IdentifierSet.functions identifiers,
                       aliases = IdentifierSet.aliases identifiers,
                       raw_sql = sql\<rparr>)))"

definition extract_identifiers :: "sqlglot \<Rightarrow> SQLParser \<Rightarrow> string \<Rightarrow> string \<Rightarrow> exn + IdentifierSet" where
  "extract_identifiers lib self sql d =
     (case parse lib self sql d of
        Inl e \<Rightarrow> Inl e
      | Inr parsed \<Rightarrow>
          Inr \<lparr>IdentifierSet.tables = ParsedSQL.tables parsed,
               columns = ParsedSQL.columns parsed,
               functions = ParsedSQL.functions parsed,
               aliases = ParsedSQL.aliases parsed\<rparr>)"

section \<open>The hallucination detector (hallucination\_detector.py)\<close>

text \<open>The detector builds its parser with \<open>SQLParser()\<close>, so with no default dialect.\<close>

definition HallucinationDetector_parser :: SQLParser where
  "HallucinationDetector_parser = SQLParser_init []"

text \<open>\<open>HallucinationDetector._detect_phantom_tables\<close>; \<open>phantom\<close> is the list built.\<close>

definition detect_phantom_tables :: "string list \<Rightarrow> SchemaSnapshot \<Rightarrow> string list" where
  "detect_phantom_tables ts schema =
     fold (\<lambda>table phantom.
             (let table_name = last (split_str CHR ''.'' table)
              in if \<not> has_table schema table_name \<and> \<not> has_table schema table
                 then phantom @ [table] else phantom))
          ts []"

text \<open>
  \<open>d.get(a) or d.get(b)\<close> on the dict of tables (a table object is truthy).
\<close>

definition get_table :: "SchemaSnapshot \<Rightarrow> string \<Rightarrow> string \<Rightarrow> TableInfo option" where
  "get_table schema table_name full_name =
     (case map_of (SchemaSnapshot.tables schema) table_name of
        Some table_info \<Rightarrow> Some table_info
      | None \<Rightarrow> map_of (SchemaSnapshot.tables schema) full_name)"

text \<open>The three loops of \<open>HallucinationDetector._detect_phantom_columns\<close>.\<close>

definition referenced_columns :: "string list \<Rightarrow> SchemaSnapshot \<Rightarrow> string set" where
  "referenced_columns ts schema =
     fold (\<lambda>table valid_columns.
             (let table_name = last (split_str CHR ''.'' table)
              in (case get_table schema table_name table of
                    None \<Rightarrow> valid_columns
                  | Some table_info \<Rightarrow>
                      fold (\<lambda>col valid_columns.
                              insert (lower table_name @ ''.'' @ lower (ColumnInfo.name col))
                                (insert (lower (ColumnInfo.name col)) valid_columns))
                           (TableInfo.columns table_info) valid_columns)))
          ts {}"

definition aliased_columns ::
  "(string \<times> string) list \<Rightarrow> SchemaSnapshot \<Rightarrow> string set \<Rightarrow> string set" where
  "aliased_columns al schema valid_columns0 =
     fold (\<lambda>(alias, actual) valid_columns.
             (case map_of (SchemaSnapshot.tables schema) actual of
                None \<Rightarrow> valid_columns
              | Some actual_table \<Rightarrow>
                  fold (\<lambda>col valid_columns.
                          insert (lower alias @ ''.'' @ lower (ColumnInfo.name col)) valid_columns)
                       (TableInfo.columns actual_table) valid_columns))
          al valid_columns0"

definition found_anywhere :: "SchemaSnapshot \<Rightarrow> string \<Rightarrow> bool" where
  "found_anywhere schema col_name_only =
     list_ex (\<lambda>table_info.
                col_name_only \<in> set (map (\<lambda>c. lower (ColumnInfo.name c)) (TableInfo.columns table_info)))
             (map snd (SchemaSnapshot.tables schema))"

definition detect_phantom_columns ::
  "string list \<Rightarrow> string list \<Rightarrow> (string \<times> string) list \<Rightarrow> SchemaSnapshot \<Rightarrow> string list" where
  "detect_phantom_columns cs ts al schema =
     (let valid_columns = aliased_columns al schema (referenced_columns ts schema)
      in fold (\<lambda>col phantom.
                 (let col_lower = lower col;
                      col_name_only = lower (last (split_str CHR ''.'' col))
                  in if col_lower \<notin> valid_columns \<and> col_name_only \<notin> valid_columns
                     then (if CHR ''.'' \<notin> set col
                           then (if \<not> found_anywhere schema col_name_only
                                 then phantom @ [col] else phantom)
                           else phantom @ [col])
                     else phantom))
              cs [])"

text \<open>
  The alias table of \<open>HallucinationDetector._is_function_alias\<close>: a value is
  \<open>True\<close> or the name of a function.
\<close>

datatype alias_target = Always | Target string

definition function_aliases :: "(string \<times> alias_target) list" where
  "function_aliases =
    [(''ANONYMOUS'', Always),
     (''IF'', Target ''IFF''),
     (''SUBSTR'', Target ''SUBSTRING''),
     (''LEN'', Target ''LENGTH''),
     (''CHARINDEX'', Target ''POSITION'')]"

definition is_function_alias :: "string \<Rightarrow> string set \<Rightarrow> bool" where
  "is_function_alias func valid_functions =
     (case map_of function_aliases func of
        None \<Rightarrow> False
      | Some Always \<Rightarrow> True
      | Some (Target n) \<Rightarrow> n \<in> valid_functions)"

text \<open>\<open>HallucinationDetector._detect_phantom_functions\<close>.\<close>

definition valid_functions_for :: "string \<Rightarrow> SchemaSnapshot \<Rightarrow> string set" where
  "valid_functions_for d schema =
     (let valid_functions = get_dialect_functions d
      in (case SchemaSnapshot.functions schema of
            None \<Rightarrow> valid_functions
          | Some custom \<Rightarrow> valid_functions \<union> set (map upper custom)))"

definition detect_phantom_functions :: "string list \<Rightarrow> string \<Rightarrow> SchemaSnapshot \<Rightarrow> string list" where
  "detect_phantom_functions fs d schema =
     (let valid_functions = valid_functions_for d schema
      in fold (\<lambda>func phantom.
                 (let func_upper = upper func
                  in if func_upper \<notin> valid_functions
                     then (if \<not> is_function_alias func_upper valid_functions
                           then phantom @ [func] else phantom)
                     else phantom))
              fs [])"

text \<open>\<open>HallucinationDetector.detect\<close>: an exception of the parse leaves the method.\<close>

definition detect :: "sqlglot \<Rightarrow> string \<Rightarrow> SchemaSnapshot \<Rightarrow> string \<Rightarrow> exn + HallucinationReport" where
  "detect lib sql schema d =
     (case extract_identifiers lib HallucinationDetector_parser sql d of
        Inl e \<Rightarrow> Inl e
      | Inr identifiers \<Rightarrow>
          (let phantom_tables = detect_phantom_tables (IdentifierSet.tables identifiers) schema;
               phantom_columns = detect_phantom_columns (IdentifierSet.columns identifiers)
                                   (IdentifierSet.tables identifiers)
                                   (IdentifierSet.aliases identifiers) schema;
               phantom_functions = detect_phantom_functions (IdentifierSet.functions identifiers)
                                     d schema;
               total_identifiers = length (IdentifierSet.tables identifiers)
                                 + length (IdentifierSet.columns identifiers)
                                 + length (IdentifierSet.functions identifiers);
               total_phantoms = length phantom_tables + length phantom_columns
                              + length phantom_functions;
               score = real total_phantoms / real (max 1 total_identifiers)
           in Inr (HallucinationReport_init phantom_tables phantom_columns phantom_functions score)))"

text \<open>\<open>HallucinationDetector.validate\<close>.\<close>

definition table_error :: "string \<Rightarrow> string" where
  "table_error t = ''Table '' @ quoted t @ '' does not exist in schema''"

definition column_error :: "string \<Rightarrow> string" where
  "column_error col = ''Column '' @ quoted col @ '' does not exist in any table''"

definition function_warning :: "string \<Rightarrow> string \<Rightarrow> string" where
  "function_warning d func =
     ''Function '' @ quoted func @ '' may not be valid for dialect '' @ quoted d"

definition validate :: "sqlglot \<Rightarrow> string \<Rightarrow> SchemaSnapshot \<Rightarrow> string \<Rightarrow> exn + ValidationResult" where
  "validate lib sql schema d =
     (case detect lib sql schema d of
        Inl e \<Rightarrow> Inl e
      | Inr report \<Rightarrow>
          (let errors = fold (\<lambda>table errors. errors @ [table_error table])
                             (phantom_tables report) [];
               errors = fold (\<lambda>col errors. errors @ [column_error col])
                             (phantom_columns report) errors;
               warnings = fold (\<lambda>func warnings. warnings @ [function_warning d func])
                               (phantom_functions report) []
           in Inr \<lparr>is_valid = (length errors = 0),
                   errors = errors,
                   warnings = warnings,
                   hallucination_report = Some report\<rparr>))"

section \<open>The schema validator (schema\_validator.py)\<close>

text \<open>\<open>SchemaValidator._column_exists\<close>.\<close>

definition column_in :: "string \<Rightarrow> TableInfo \<Rightarrow> bool" where
  "column_in col_name table_info =
     (col_name \<in> set (map (\<lambda>c. lower (ColumnInfo.name c)) (TableInfo.columns table_info)))"

definition column_exists ::
  "string \<Rightarrow> string list \<Rightarrow> (string \<times> string) list \<Rightarrow> SchemaSnapshot \<Rightarrow> bool" where
  "column_exists col ts al schema =
     (let col_parts = split_str CHR ''.'' col;
          col_name = lower (last col_parts);
          table_qualifier = (if length col_parts > 1 then Some (lower (hd col_parts)) else None)
      in if truthy table_qualifier
         then (let q = (case table_qualifier of Some q \<Rightarrow> q | None \<Rightarrow> []);
                   actual_table = (case map_of al q of Some a \<Rightarrow> a | None \<Rightarrow> q)
               in (case map_of (SchemaSnapshot.tables schema) actual_table of
                     Some table_info \<Rightarrow> column_in col_name table_info
                   | None \<Rightarrow> False))
         else (list_ex (\<lambda>table.
                          (case get_table schema (last (split_str CHR ''.'' table)) table of
                             Some table_info \<Rightarrow> column_in col_name table_info
                           | None \<Rightarrow> False)) ts
               \<or> list_ex (column_in col_name) (map snd (SchemaSnapshot.tables schema))))"

text \<open>\<open>SchemaValidator.validate\<close>.\<close>

definition SchemaValidator_validate :: "IdentifierSet \<Rightarrow> SchemaSnapshot \<Rightarrow> ValidationResult" where
  "SchemaValidator_validate identifiers schema =
     (let errors = fold (\<lambda>table errors.
                           (let table_name = last (split_str CHR ''.'' table)
                            in if \<not> has_table schema table_name \<and> \<not> has_table schema table
                               then errors @ [''Table '' @ quoted table @ '' does not exist.'']
                               else errors))
                        (IdentifierSet.tables identifiers) [];
          errors = fold (\<lambda>col errors.
                           if \<not> column_exists col (IdentifierSet.tables identifiers)
                                  (IdentifierSet.aliases identifiers) schema
                           then errors @ [''Column '' @ quoted col @ '' does not exist in any table.'']
                           else errors)
                        (IdentifierSet.columns identifiers) errors;
          warnings = []
      in \<lparr>is_valid = (length errors = 0), errors = errors, warnings = warnings,
          hallucination_report = None\<rparr>)"

section \<open>The join path verifier (join\_path\_verifier.py)\<close>

definition JoinPathVerifier_parser :: SQLParser where
  "JoinPathVerifier_parser = SQLParser_init []"

text \<open>\<open>JoinPathVerifier._extract_join_columns\<close>, over the equalities of an ON clause.\<close>

definition extract_join_columns :: "(operand \<times> operand) list \<Rightarrow> (string \<times> string) list" where
  "extract_join_columns eqs =
     fold (\<lambda>(left, right) pairs.
             (case (left, right) of
                (ColumnRef l, ColumnRef r) \<Rightarrow>
                  (let left_name = (if table l \<noteq> [] then table l @ ''.'' @ Column.name l
                                    else Column.name l);
                       right_name = (if table r \<noteq> [] then table r @ ''.'' @ Column.name r
                                     else Column.name r)
                   in pairs @ [(left_name, right_name)])
              | _ \<Rightarrow> pairs))
          eqs []"

text \<open>
  One direction of \<open>JoinPathVerifier._is_valid_join_path\<close>: some column of the table
  named \<open>from_table\<close> has the given name (case-insensitively) and a foreign key
  whose first segment is \<open>to_table\<close> (case-insensitively).
\<close>

definition has_fk_to :: "SchemaSnapshot \<Rightarrow> string \<Rightarrow> string \<Rightarrow> string \<Rightarrow> bool" where
  "has_fk_to schema from_table from_column to_table =
     (case map_of (SchemaSnapshot.tables schema) from_table of
        None \<Rightarrow> False
      | Some table_info \<Rightarrow>
          list_ex (\<lambda>col.
                     lower (ColumnInfo.name col) = lower from_column
                     \<and> truthy (foreign_key col)
                     \<and> (let fk_parts = split_str CHR ''.'' (case foreign_key col of Some k \<Rightarrow> k | None \<Rightarrow> [])
                        in length fk_parts \<ge> 2 \<and> lower (hd fk_parts) = lower to_table))
                  (TableInfo.columns table_info))"

definition is_valid_join_path :: "string \<Rightarrow> string \<Rightarrow> SchemaSnapshot \<Rightarrow> bool" where
  "is_valid_join_path left_col right_col schema =
     (let left_parts = split_str CHR ''.'' left_col;
          right_parts = split_str CHR ''.'' right_col
      in if length left_parts < 2 \<or> length right_parts < 2 then True
         else (let left_table = left_parts ! 0; left_column = left_parts ! 1;
                   right_table = right_parts ! 0; right_column = right_parts ! 1
               in if has_fk_to schema left_table left_column right_table then True
                  else if has_fk_to schema right_table right_column left_table then True
                  else False))"

text \<open>
  \<open>JoinPathVerifier._verify_single_join\<close>: the validity of each pair is computed and
  the branch for an invalid pair is \<open>pass\<close>.
\<close>

definition verify_single_join :: "Join \<Rightarrow> SchemaSnapshot \<Rightarrow> string list" where
  "verify_single_join join schema =
     (let errors = []
      in if \<not> truthy (this_table join) then errors
         else (case on_eqs join of
                 None \<Rightarrow> errors
               | Some on_clause \<Rightarrow>
                   fold (\<lambda>(left_col, right_col) errors.
                           if \<not> is_valid_join_path left_col right_col schema then errors
                           else errors)
                        (extract_join_columns on_clause) errors))"

text \<open>\<open>JoinPathVerifier.verify\<close>.\<close>

definition verify :: "sqlglot \<Rightarrow> string \<Rightarrow> SchemaSnapshot \<Rightarrow> string \<Rightarrow> exn + ValidationResult" where
  "verify lib sql schema d =
     (case parse lib JoinPathVerifier_parser sql d of
        Inl e \<Rightarrow> Inl e
      | Inr parsed \<Rightarrow>
          (let joins = find_all_Join (ast parsed);
               errors = fold (\<lambda>join errors. errors @ verify_single_join join schema) joins [];
               warnings = []
           in Inr \<lparr>is_valid = (length errors = 0), errors = errors, warnings = warnings,
                   hallucination_report = None\<rparr>))"

section \<open>Notions of the specification\<close>

text \<open>
  The bare name of a possibly qualified spelling, in the specification's words: its
  last dot-separated segment, that is, what follows the last dot.
\<close>

definition last_segment :: "string \<Rightarrow> string" where
  "last_segment s = rev (takeWhile (\<lambda>c. c \<noteq> CHR ''.'') (rev s))"

text \<open>
  Modelled from the spec: \<open>has_table\<close> of the schema class, which is not among the
  sources. The specification gives the schema an existence check by exact or
  case-normalized table name: a name exists when it is stored as spelled, or when its
  lower-casing is that of a stored name. This builds the schema object over a dict of
  tables with that lookup and without custom functions.
\<close>

definition SchemaSnapshot_init :: "(string \<times> TableInfo) list \<Rightarrow> SchemaSnapshot" where
  "SchemaSnapshot_init tbls =
     \<lparr>SchemaSnapshot.tables = tbls,
      has_table = (\<lambda>n. n \<in> set (map fst tbls) \<or> lower n \<in> set (map (\<lambda>e. lower (fst e)) tbls)),
      functions = None\<rparr>"

section \<open>The queries and schemas of the scenarios\<close>

text \<open>
  The trees sqlglot builds for the queries of the scenarios, as the lists of nodes
  \<open>find_all\<close> yields: identifiers keep their spelling, an unqualified \<open>*\<close> is a
  star node (no column reference), and none of the queries has a function call or an
  alias.
\<close>

definition customers_query :: string where
  "customers_query = ''SELECT name, age FROM customers''"

definition customers_query_tree :: tree where
  "customers_query_tree =
     \<lparr>find_all_Table = [\<lparr>Table.name = ''customers'', db = [], catalog = []\<rparr>],
      find_all_Column = [\<lparr>Column.name = ''name'', table = []\<rparr>,
                         \<lparr>Column.name = ''age'', table = []\<rparr>],
      find_all_Func = [], find_all_Alias = [], find_all_Join = []\<rparr>"

definition ghost_query :: string where
  "ghost_query = ''SELECT * FROM ghost_table''"

definition ghost_query_tree :: tree where
  "ghost_query_tree =
     \<lparr>find_all_Table = [\<lparr>Table.name = ''ghost_table'', db = [], catalog = []\<rparr>],
      find_all_Column = [],
      find_all_Func = [], find_all_Alias = [], find_all_Join = []\<rparr>"

definition orders_query_mixed :: string where
  "orders_query_mixed = ''SELECT Total FROM Orders''"

definition orders_query_mixed_tree :: tree where
  "orders_query_mixed_tree =
     \<lparr>find_all_Table = [\<lparr>Table.name = ''Orders'', db = [], catalog = []\<rparr>],
      find_all_Column = [\<lparr>Column.name = ''Total'', table = []\<rparr>],
      find_all_Func = [], find_all_Alias = [], find_all_Join = []\<rparr>"

definition orders_query_lower :: string where
  "orders_query_lower = ''select total from orders''"

definition orders_query_lower_tree :: tree where
  "orders_query_lower_tree =
     \<lparr>find_all_Table = [\<lparr>Table.name = ''orders'', db = [], catalog = []\<rparr>],
      find_all_Column = [\<lparr>Column.name = ''total'', table = []\<rparr>],
      find_all_Func = [], find_all_Alias = [], find_all_Join = []\<rparr>"

definition join_query :: string where
  "join_query = ''SELECT * FROM customers JOIN orders ON customers.id = orders.total''"

definition join_query_tree :: tree where
  "join_query_tree =
     \<lparr>find_all_Table = [\<lparr>Table.name = ''customers'', db = [], catalog = []\<rparr>,
                        \<lparr>Table.name = ''orders'', db = [], catalog = []\<rparr>],
      find_all_Column = [\<lparr>Column.name = ''id'', table = ''customers''\<rparr>,
                         \<lparr>Column.name = ''total'', table = ''orders''\<rparr>],
      find_all_Func = [], find_all_Alias = [],
      find_all_Join =
        [\<lparr>this_table = Some ''orders'',
          on_eqs = Some [(ColumnRef \<lparr>Column.name = ''id'', table = ''customers''\<rparr>,
                          ColumnRef \<lparr>Column.name = ''total'', table = ''orders''\<rparr>)]\<rparr>]\<rparr>"

definition scenario_trees :: "(string \<times> tree) list" where
  "scenario_trees =
     [(customers_query, customers_query_tree),
      (ghost_query, ghost_query_tree),
      (orders_query_mixed, orders_query_mixed_tree),
      (orders_query_lower, orders_query_lower_tree),
      (join_query, join_query_tree)]"

text \<open>
  The library on the texts used below, whatever the dialect: the tree of a scenario
  query, and for the empty text, which holds no statement, the \<open>ParseError\<close> that
  \<open>parse_one\<close> raises once nothing was parsed, at every error level. No other text
  is used.
\<close>

definition scenario_lib :: sqlglot where
  "scenario_lib =
     \<lparr>parse_one = (\<lambda>sql read. case map_of scenario_trees sql of
                                    Some t \<Rightarrow> Inr t | None \<Rightarrow> Inl ParseError),
      parse_one_ignore = (\<lambda>sql. case map_of scenario_trees sql of
                                    Some t \<Rightarrow> Inr t | None \<Rightarrow> Inl ParseError)\<rparr>"

text \<open>
  A library that accepts a text under the dialect \<open>bigquery\<close> only, to exercise the
  fallback loop: under any other dialect, and with errors ignored, it raises
  \<open>ParseError\<close>.
\<close>

definition bigquery_only_lib :: "tree \<Rightarrow> sqlglot" where
  "bigquery_only_lib t =
     \<lparr>parse_one = (\<lambda>sql read. if read = Some ''bigquery'' then Inr t else Inl ParseError),
      parse_one_ignore = (\<lambda>sql. Inl ParseError)\<rparr>"

definition customers_schema :: SchemaSnapshot where
  "customers_schema =
     SchemaSnapshot_init
       [(''customers'',
         \<lparr>TableInfo.columns = [\<lparr>ColumnInfo.name = ''id'', foreign_key = None\<rparr>,
                                \<lparr>ColumnInfo.name = ''name'', foreign_key = None\<rparr>,
                                \<lparr>ColumnInfo.name = ''email'', foreign_key = None\<rparr>]\<rparr>)]"


definition join_schema :: SchemaSnapshot where
  "join_schema =
     SchemaSnapshot_init
       [(''customers'', \<lparr>TableInfo.columns = [\<lparr>ColumnInfo.name = ''id'', foreign_key = None\<rparr>]\<rparr>),
        (''orders'',
         \<lparr>TableInfo.columns = [\<lparr>ColumnInfo.name = ''id'', foreign_key = None\<rparr>,
                                \<lparr>ColumnInfo.name = ''customer_id'', foreign_key = Some ''customers.id''\<rparr>,
                                \<lparr>ColumnInfo.name = ''total'', foreign_key = None\<rparr>]\<rparr>)]"

section \<open>Loops as filters and maps\<close>

lemma fold_append_filter:
  "fold (\<lambda>x acc. if P x then acc @ [x] else acc) xs acc = acc @ filter P xs"
  by (induction xs arbitrary: acc) auto

lemma fold_append_map:
  "fold (\<lambda>x acc. acc @ [f x]) xs acc = acc @ map f xs"
  by (induction xs arbitrary: acc) auto

lemma split_str_not_Nil: "split_str sep s \<noteq> []"
  by (induction s) (auto split: list.splits)

lemma split_str_no_sep: "sep \<notin> set s \<Longrightarrow> split_str sep s = [s]"
  by (induction s) auto

lemma split_str_sep_tl: "sep \<in> set s \<Longrightarrow> tl (split_str sep s) \<noteq> []"
  by (induction s) (auto simp: split_str_not_Nil split: list.splits)

lemma last_split_str:
  "last (split_str sep s) = rev (takeWhile (\<lambda>c. c \<noteq> sep) (rev s))"
proof (induction s)
  case Nil
  then show ?case by simp
next
  case (Cons c cs)
  show ?case
  proof (cases "sep \<in> set cs")
    case True
    then have tw: "takeWhile (\<lambda>c. c \<noteq> sep) (rev cs @ [c]) = takeWhile (\<lambda>c. c \<noteq> sep) (rev cs)"
      by (intro takeWhile_append1[of sep]) auto
    from True have "tl (split_str sep cs) \<noteq> []" by (rule split_str_sep_tl)
    then have "last (split_str sep (c # cs)) = last (split_str sep cs)"
      by (auto simp: split_str_not_Nil split: list.splits)
    with Cons tw show ?thesis by simp
  next
    case False
    then have "split_str sep cs = [cs]" by (rule split_str_no_sep)
    moreover from False have "takeWhile (\<lambda>c. c \<noteq> sep) (rev cs @ [c]) = rev cs @ takeWhile (\<lambda>c. c \<noteq> sep) [c]"
      by (intro takeWhile_append2) auto
    ultimately show ?thesis by auto
  qed
qed

lemma detect_phantom_tables_filter:
  "detect_phantom_tables ts schema =
     filter (\<lambda>t. \<not> has_table schema (last (split_str CHR ''.'' t)) \<and> \<not> has_table schema t) ts"
  unfolding detect_phantom_tables_def Let_def
  using fold_append_filter[of "\<lambda>t. \<not> has_table schema (last (split_str CHR ''.'' t)) \<and> \<not> has_table schema t" ts "[]"]
  by simp

lemma detect_phantom_columns_filter:
  "detect_phantom_columns cs ts al schema =
     filter (\<lambda>col. lower col \<notin> aliased_columns al schema (referenced_columns ts schema)
                  \<and> lower (last (split_str CHR ''.'' col)) \<notin> aliased_columns al schema (referenced_columns ts schema)
                  \<and> (CHR ''.'' \<in> set col \<or> \<not> found_anywhere schema (lower (last (split_str CHR ''.'' col))))) cs"
proof -
  let ?P = "\<lambda>col. lower col \<notin> aliased_columns al schema (referenced_columns ts schema)
                  \<and> lower (last (split_str CHR ''.'' col)) \<notin> aliased_columns al schema (referenced_columns ts schema)
                  \<and> (CHR ''.'' \<in> set col \<or> \<not> found_anywhere schema (lower (last (split_str CHR ''.'' col))))"
  have "detect_phantom_columns cs ts al schema = fold (\<lambda>x acc. if ?P x then acc @ [x] else acc) cs []"
    unfolding detect_phantom_columns_def Let_def
    by (rule arg_cong[where f="\<lambda>f. fold f cs []"]) (auto simp: fun_eq_iff)
  then show ?thesis by (simp add: fold_append_filter)
qed

lemma detect_phantom_functions_filter:
  "detect_phantom_functions fs d schema =
     filter (\<lambda>func. upper func \<notin> valid_functions_for d schema
                   \<and> \<not> is_function_alias (upper func) (valid_functions_for d schema)) fs"
proof -
  let ?P = "\<lambda>func. upper func \<notin> valid_functions_for d schema
                   \<and> \<not> is_function_alias (upper func) (valid_functions_for d schema)"
  have "detect_phantom_functions fs d schema = fold (\<lambda>x acc. if ?P x then acc @ [x] else acc) fs []"
    unfolding detect_phantom_functions_def Let_def
    by (rule arg_cong[where f="\<lambda>f. fold f fs []"]) (auto simp: fun_eq_iff)
  then show ?thesis by (simp add: fold_append_filter)
qed

section \<open>Whitespace and letter case\<close>

lemma lower_char_isspace: "isspace (lower_char c) = isspace c"
  by (auto simp: lower_char_def isspace_def ascii_uppercase_def ascii_lowercase_def
      split: option.splits if_splits)

lemma list_all_isspace_lower: "list_all isspace (lower s) = list_all isspace s"
  by (induction s) (auto simp: lower_def lower_char_isspace)

lemma strip_all_space: "list_all isspace s \<Longrightarrow> strip s = []"
proof -
  assume "list_all isspace s"
  then have e: "dropWhile isspace s = []" by (simp add: list_all_iff)
  show ?thesis unfolding strip_def e by simp
qed

lemma strip_padding:
  assumes "list_all isspace l" and "list_all isspace r"
  shows "strip (l @ x @ r) = strip x"
proof -
  from assms(1) have 1: "dropWhile isspace (l @ x @ r) = dropWhile isspace (x @ r)"
    by (intro dropWhile_append2) (auto simp: list_all_iff)
  show ?thesis
  proof (cases "list_all isspace x")
    case True
    with assms have "list_all isspace (l @ x @ r)" by simp
    then have "strip (l @ x @ r) = []" by (rule strip_all_space)
    moreover from True have "strip x = []" by (rule strip_all_space)
    ultimately show ?thesis by simp
  next
    case False
    then obtain c where c: "c \<in> set x" "\<not> isspace c" by (auto simp: list_all_iff)
    then have 2: "dropWhile isspace (x @ r) = dropWhile isspace x @ r"
      by (intro dropWhile_append1[of c]) auto
    from assms(2) have "dropWhile isspace (rev r @ rev (dropWhile isspace x)) = dropWhile isspace (rev (dropWhile isspace x))"
      by (intro dropWhile_append2) (auto simp: list_all_iff)
    with 1 2 show ?thesis by (simp add: strip_def)
  qed
qed

lemma map_of_DIALECT_MAP_Nil: "map_of DIALECT_MAP [] = Some None"
  by (simp add: DIALECT_MAP_def)

section \<open>Dialect normalization\<close>

text \<open>
  C2, as the code has it. Normalization ignores letter case (two strings with the same
  lower-casing normalize alike) and surrounding whitespace; the empty string and a
  string of whitespace only give no canonical dialect; a string whose lower-cased,
  trimmed form is a key of the dialect map gives the value stored there; and a
  non-blank string that is no key of the map is passed through, lower-cased and
  trimmed, as the dialect.
\<close>

theorem normalize_dialect_cases:
  "(lower d1 = lower d2 \<longrightarrow> normalize_dialect d1 = normalize_dialect d2)
   \<and> (list_all isspace l \<and> list_all isspace r \<longrightarrow>
        normalize_dialect (l @ d @ r) = normalize_dialect d)
   \<and> (list_all isspace d \<longrightarrow> normalize_dialect d = None)
   \<and> (d \<noteq> [] \<and> map_of DIALECT_MAP (strip (lower d)) = Some v \<longrightarrow> normalize_dialect d = v)
   \<and> (strip (lower d) \<notin> set (map fst DIALECT_MAP) \<longrightarrow>
        normalize_dialect d = Some (strip (lower d)))"
proof (intro conjI impI)
  assume "lower d1 = lower d2"
  moreover from this have "d1 = [] \<longleftrightarrow> d2 = []" by (auto simp: lower_def)
  ultimately show "normalize_dialect d1 = normalize_dialect d2"
    by (simp add: normalize_dialect_def)
next
  assume ws: "list_all isspace l \<and> list_all isspace r"
  then have "strip (lower (l @ d @ r)) = strip (lower d)"
    using strip_padding[of "lower l" "lower r" "lower d"]
    by (simp add: list_all_isspace_lower) (simp add: lower_def)
  moreover have "strip (lower []) = []" by (simp add: strip_def lower_def)
  ultimately show "normalize_dialect (l @ d @ r) = normalize_dialect d"
    by (auto simp: normalize_dialect_def map_of_DIALECT_MAP_Nil)
next
  assume "list_all isspace d"
  then have "strip (lower d) = []"
    by (intro strip_all_space) (simp add: list_all_isspace_lower)
  then show "normalize_dialect d = None"
    by (simp add: normalize_dialect_def map_of_DIALECT_MAP_Nil)
next
  assume "d \<noteq> [] \<and> map_of DIALECT_MAP (strip (lower d)) = Some v"
  then show "normalize_dialect d = v" by (simp add: normalize_dialect_def)
next
  assume a: "strip (lower d) \<notin> set (map fst DIALECT_MAP)"
  then have "map_of DIALECT_MAP (strip (lower d)) = None"
    by (simp add: map_of_eq_None_iff)
  moreover from a have "d \<noteq> []"
    by (auto simp: DIALECT_MAP_def strip_def lower_def)
  ultimately show "normalize_dialect d = Some (strip (lower d))"
    by (simp add: normalize_dialect_def)
qed

text \<open>
  C2, as stated, fails: \<open>oracle\<close> is not a key of the dialect map, and it is
  normalized to itself, not to the absence of a dialect.
\<close>

theorem normalize_dialect_passes_unknown_through:
  "''oracle'' \<noteq> [] \<and> ''oracle'' \<notin> set (map fst DIALECT_MAP)
   \<and> normalize_dialect ''oracle'' = Some ''oracle''"
  by (simp add: normalize_dialect_def DIALECT_MAP_def strip_def lower_def lower_char_def
      ascii_uppercase_def ascii_lowercase_def isspace_def)

text \<open>The five cases of C2 at concrete dialect strings.\<close>

theorem normalize_dialect_cases_witness:
  "normalize_dialect ''POSTGRESQL'' = normalize_dialect ''postgresql''
   \<and> normalize_dialect ('' '' @ ''MySQL'' @ ''  '') = normalize_dialect ''MySQL''
   \<and> normalize_dialect ''  '' = None
   \<and> normalize_dialect ''PostgreSQL'' = Some ''postgres''
   \<and> normalize_dialect ''Oracle '' = Some ''oracle''"
proof -
  have low: "lower ''POSTGRESQL'' = lower ''postgresql''" "strip (lower ''PostgreSQL'') = ''postgresql''"
    "strip (lower ''Oracle '') = ''oracle''"
    by (simp_all add: strip_def lower_def lower_char_def ascii_uppercase_def ascii_lowercase_def isspace_def)
  have ws: "list_all isspace '' ''" "list_all isspace ''  ''" by (simp_all add: isspace_def)
  have 1: "normalize_dialect ''POSTGRESQL'' = normalize_dialect ''postgresql''"
    using normalize_dialect_cases[of "''POSTGRESQL''" "''postgresql''"] low by simp
  have 2: "normalize_dialect ('' '' @ ''MySQL'' @ ''  '') = normalize_dialect ''MySQL''"
    using normalize_dialect_cases[of _ _ "'' ''" "''  ''" "''MySQL''"] ws by blast
  have 3: "normalize_dialect ''  '' = None"
    using normalize_dialect_cases[of _ _ _ _ "''  ''"] ws by blast
  have 4: "normalize_dialect ''PostgreSQL'' = Some ''postgres''"
    using normalize_dialect_cases[of _ _ "[]" "[]"  "''PostgreSQL''" "Some ''postgres''"] low
    by (simp add: DIALECT_MAP_def)
  have 5: "normalize_dialect ''Oracle '' = Some ''oracle''"
    using normalize_dialect_cases[of _ _ "[]" "[]"  "''Oracle ''"] low
    by (simp add: DIALECT_MAP_def)
  from 1 2 3 4 5 show ?thesis by blast
qed

section \<open>Phantom tables\<close>

lemma SchemaValidator_errors:
  "errors (SchemaValidator_validate identifiers schema) =
     map (\<lambda>t. ''Table '' @ quoted t @ '' does not exist.'')
         (detect_phantom_tables (IdentifierSet.tables identifiers) schema)
     @ map (\<lambda>col. ''Column '' @ quoted col @ '' does not exist in any table.'')
         (filter (\<lambda>col. \<not> column_exists col (IdentifierSet.tables identifiers)
                            (IdentifierSet.aliases identifiers) schema)
                 (IdentifierSet.columns identifiers))"
proof -
  have a: "fold (\<lambda>x acc. if P x then acc @ [f x] else acc) xs acc = acc @ map f (filter P xs)"
    for P :: "string \<Rightarrow> bool" and f :: "string \<Rightarrow> string" and xs acc
    by (induction xs arbitrary: acc) auto
  show ?thesis
    by (simp add: SchemaValidator_validate_def Let_def a detect_phantom_tables_filter)
qed

text \<open>
  C5. The phantom tables are the extracted table references, in their order, for
  which \<open>has_table\<close> accepts neither the bare name (the last dot-separated segment)
  nor the spelling as extracted; both are handed to \<open>has_table\<close> unchanged, with no
  case folding. So a reference is reported iff it was extracted and neither lookup
  succeeds. The schema validator makes the same test: its first errors are one per
  phantom table, in the same order.
\<close>

theorem phantom_table_iff:
  "detect_phantom_tables ts schema =
     filter (\<lambda>t. \<not> has_table schema (last_segment t) \<and> \<not> has_table schema t) ts
   \<and> (t \<in> set (detect_phantom_tables ts schema) \<longleftrightarrow>
        t \<in> set ts \<and> \<not> has_table schema (last_segment t) \<and> \<not> has_table schema t)
   \<and> take (length (detect_phantom_tables (IdentifierSet.tables identifiers) schema))
          (errors (SchemaValidator_validate identifiers schema)) =
       map (\<lambda>t. ''Table '' @ quoted t @ '' does not exist.'')
           (detect_phantom_tables (IdentifierSet.tables identifiers) schema)"
  by (auto simp: detect_phantom_tables_filter last_split_str last_segment_def SchemaValidator_errors)

section \<open>Phantom functions\<close>

lemmas string_eval = lower_def upper_def lower_char_def upper_char_def ascii_uppercase_def
  ascii_lowercase_def strip_def isspace_def

lemma is_function_alias_cases:
  "is_function_alias func v \<longleftrightarrow>
     func = ''ANONYMOUS'' \<or> func = ''IF'' \<and> ''IFF'' \<in> v
     \<or> func = ''SUBSTR'' \<and> ''SUBSTRING'' \<in> v \<or> func = ''LEN'' \<and> ''LENGTH'' \<in> v
     \<or> func = ''CHARINDEX'' \<and> ''POSITION'' \<in> v"
  by (auto simp: is_function_alias_def function_aliases_def)

lemma valid_functions_for_unfold:
  "valid_functions_for d schema =
     COMMON_FUNCTIONS
     \<union> (if normalize_dialect d = Some ''bigquery'' then BIGQUERY_FUNCTIONS
        else if normalize_dialect d = Some ''snowflake'' then SNOWFLAKE_FUNCTIONS else {})
     \<union> (case SchemaSnapshot.functions schema of None \<Rightarrow> {} | Some custom \<Rightarrow> set (map upper custom))"
  by (simp add: valid_functions_for_def get_dialect_functions_def Let_def split: option.splits)

lemma normalize_snowflake: "normalize_dialect ''snowflake'' = Some ''snowflake''"
  by (simp add: normalize_dialect_def DIALECT_MAP_def string_eval)

lemma normalize_postgres: "normalize_dialect ''postgres'' = Some ''postgres''"
  by (simp add: normalize_dialect_def DIALECT_MAP_def string_eval)

lemma IFF_snowflake: "''IFF'' \<in> SNOWFLAKE_FUNCTIONS"
  by (simp add: SNOWFLAKE_FUNCTIONS_def)

lemma upper_IF: "upper ''IF'' = ''IF''"
  by (simp add: string_eval)

text \<open>
  C7. An extracted function is reported as a phantom function iff its upper-cased name
  is absent from the valid-function set of the dialect and it is not a recognized
  alias, by the alias table of the detector, of a name present in that set. The
  valid-function set is the common functions, plus the dialect-specific ones, plus the
  schema's custom functions upper-cased. The alias table accepts the generic wrapper
  name \<open>ANONYMOUS\<close> whatever the set, and \<open>IF\<close>, \<open>SUBSTR\<close>, \<open>LEN\<close> and
  \<open>CHARINDEX\<close> when \<open>IFF\<close>, \<open>SUBSTRING\<close>, \<open>LENGTH\<close> resp. \<open>POSITION\<close>
  is in the set. Under a dialect that normalizes to snowflake, \<open>IF\<close> is accepted as
  an alias of \<open>IFF\<close> and never reported.
\<close>

theorem phantom_function_iff:
  "(f \<in> set (detect_phantom_functions fs d schema) \<longleftrightarrow>
      f \<in> set fs \<and> upper f \<notin> valid_functions_for d schema
      \<and> \<not> is_function_alias (upper f) (valid_functions_for d schema))
   \<and> valid_functions_for d schema =
       COMMON_FUNCTIONS
       \<union> (if normalize_dialect d = Some ''bigquery'' then BIGQUERY_FUNCTIONS
          else if normalize_dialect d = Some ''snowflake'' then SNOWFLAKE_FUNCTIONS else {})
       \<union> (case SchemaSnapshot.functions schema of None \<Rightarrow> {} | Some custom \<Rightarrow> set (map upper custom))
   \<and> (is_function_alias g v \<longleftrightarrow>
        g = ''ANONYMOUS'' \<or> g = ''IF'' \<and> ''IFF'' \<in> v
        \<or> g = ''SUBSTR'' \<and> ''SUBSTRING'' \<in> v \<or> g = ''LEN'' \<and> ''LENGTH'' \<in> v
        \<or> g = ''CHARINDEX'' \<and> ''POSITION'' \<in> v)
   \<and> (normalize_dialect d = Some ''snowflake'' \<longrightarrow>
        ''IFF'' \<in> valid_functions_for d schema
        \<and> is_function_alias ''IF'' (valid_functions_for d schema)
        \<and> ''IF'' \<notin> set (detect_phantom_functions fs d schema))"
proof (intro conjI impI)
  show "f \<in> set (detect_phantom_functions fs d schema) \<longleftrightarrow>
      f \<in> set fs \<and> upper f \<notin> valid_functions_for d schema
      \<and> \<not> is_function_alias (upper f) (valid_functions_for d schema)"
    by (auto simp: detect_phantom_functions_filter)
next
  show "valid_functions_for d schema =
       COMMON_FUNCTIONS
       \<union> (if normalize_dialect d = Some ''bigquery'' then BIGQUERY_FUNCTIONS
          else if normalize_dialect d = Some ''snowflake'' then SNOWFLAKE_FUNCTIONS else {})
       \<union> (case SchemaSnapshot.functions schema of None \<Rightarrow> {} | Some custom \<Rightarrow> set (map upper custom))"
    by (rule valid_functions_for_unfold)
next
  show "is_function_alias g v \<longleftrightarrow>
        g = ''ANONYMOUS'' \<or> g = ''IF'' \<and> ''IFF'' \<in> v
        \<or> g = ''SUBSTR'' \<and> ''SUBSTRING'' \<in> v \<or> g = ''LEN'' \<and> ''LENGTH'' \<in> v
        \<or> g = ''CHARINDEX'' \<and> ''POSITION'' \<in> v"
    by (rule is_function_alias_cases)
next
  assume sf: "normalize_dialect d = Some ''snowflake''"
  then show iff: "''IFF'' \<in> valid_functions_for d schema"
    by (simp add: valid_functions_for_unfold IFF_snowflake)
  then show al: "is_function_alias ''IF'' (valid_functions_for d schema)"
    by (simp add: is_function_alias_cases)
  then show "''IF'' \<notin> set (detect_phantom_functions fs d schema)"
    by (simp add: detect_phantom_functions_filter upper_IF)
qed

text \<open>
  C7 on the functions \<open>IF\<close>, \<open>MADE_UP\<close> and \<open>ANONYMOUS\<close> under the dialect
  string \<open>Snowflake\<close>.
\<close>

theorem phantom_function_iff_witness:
  "''IF'' \<notin> set (detect_phantom_functions [''IF'', ''MADE_UP'', ''ANONYMOUS''] ''Snowflake'' (SchemaSnapshot_init []))
   \<and> ''MADE_UP'' \<in> set (detect_phantom_functions [''IF'', ''MADE_UP'', ''ANONYMOUS''] ''Snowflake'' (SchemaSnapshot_init []))
   \<and> ''ANONYMOUS'' \<notin> set (detect_phantom_functions [''IF'', ''MADE_UP'', ''ANONYMOUS''] ''Snowflake'' (SchemaSnapshot_init []))"
proof -
  have sf: "normalize_dialect ''Snowflake'' = Some ''snowflake''"
    by (simp add: normalize_dialect_def DIALECT_MAP_def string_eval)
  have u: "upper ''MADE_UP'' = ''MADE_UP''" "upper ''ANONYMOUS'' = ''ANONYMOUS''"
    by (simp_all add: string_eval)
  have v: "valid_functions_for ''Snowflake'' (SchemaSnapshot_init []) = COMMON_FUNCTIONS \<union> SNOWFLAKE_FUNCTIONS"
    by (simp add: valid_functions_for_unfold sf SchemaSnapshot_init_def)
  have n: "''MADE_UP'' \<notin> COMMON_FUNCTIONS \<union> SNOWFLAKE_FUNCTIONS"
    by (simp add: COMMON_FUNCTIONS_def SNOWFLAKE_FUNCTIONS_def)
  have a: "\<not> is_function_alias ''MADE_UP'' (COMMON_FUNCTIONS \<union> SNOWFLAKE_FUNCTIONS)"
    using phantom_function_iff[THEN conjunct2, THEN conjunct2, THEN conjunct1,
        of "''MADE_UP''" "COMMON_FUNCTIONS \<union> SNOWFLAKE_FUNCTIONS"]
    by simp
  have b: "is_function_alias ''ANONYMOUS'' (COMMON_FUNCTIONS \<union> SNOWFLAKE_FUNCTIONS)"
    using phantom_function_iff[THEN conjunct2, THEN conjunct2, THEN conjunct1,
        of "''ANONYMOUS''" "COMMON_FUNCTIONS \<union> SNOWFLAKE_FUNCTIONS"]
    by simp
  have 1: "''IF'' \<notin> set (detect_phantom_functions [''IF'', ''MADE_UP'', ''ANONYMOUS''] ''Snowflake'' (SchemaSnapshot_init []))"
    using phantom_function_iff[THEN conjunct2, THEN conjunct2, THEN conjunct2,
        of "''Snowflake''" "SchemaSnapshot_init []" "[''IF'', ''MADE_UP'', ''ANONYMOUS'']"] sf
    by blast
  have 2: "''MADE_UP'' \<in> set (detect_phantom_functions [''IF'', ''MADE_UP'', ''ANONYMOUS''] ''Snowflake'' (SchemaSnapshot_init []))"
    using phantom_function_iff[THEN conjunct1,
        of "''MADE_UP''" "[''IF'', ''MADE_UP'', ''ANONYMOUS'']" "''Snowflake''" "SchemaSnapshot_init []"]
      u v n a
    by simp
  have 3: "''ANONYMOUS'' \<notin> set (detect_phantom_functions [''IF'', ''MADE_UP'', ''ANONYMOUS''] ''Snowflake'' (SchemaSnapshot_init []))"
    using phantom_function_iff[THEN conjunct1,
        of "''ANONYMOUS''" "[''IF'', ''MADE_UP'', ''ANONYMOUS'']" "''Snowflake''" "SchemaSnapshot_init []"]
      u v b
    by simp
  from 1 2 3 show ?thesis by blast
qed

text \<open>
  C10. For every dialect string whose normalized form is neither bigquery nor
  snowflake, \<open>get_dialect_functions\<close> returns exactly the common functions, and a
  function is reported as phantom iff it was extracted, its upper-cased name is outside
  the common functions and the schema's custom functions, and it is not accepted as an
  alias. The names postgres, mysql, sqlite, duckdb and clickhouse normalize to
  themselves and are such dialects.
\<close>

theorem other_dialects_common_functions:
  "(normalize_dialect d \<noteq> Some ''bigquery'' \<and> normalize_dialect d \<noteq> Some ''snowflake'' \<longrightarrow>
      get_dialect_functions d = COMMON_FUNCTIONS
      \<and> (f \<in> set (detect_phantom_functions fs d schema) \<longleftrightarrow>
           f \<in> set fs \<and> upper f \<notin> COMMON_FUNCTIONS
           \<and> upper f \<notin> (case SchemaSnapshot.functions schema of None \<Rightarrow> {} | Some custom \<Rightarrow> set (map upper custom))
           \<and> \<not> is_function_alias (upper f) (valid_functions_for d schema)))
   \<and> (d \<in> set [''postgres'', ''mysql'', ''sqlite'', ''duckdb'', ''clickhouse''] \<longrightarrow>
        normalize_dialect d = Some d \<and> get_dialect_functions d = COMMON_FUNCTIONS)"
proof (intro conjI impI)
  assume h: "normalize_dialect d \<noteq> Some ''bigquery'' \<and> normalize_dialect d \<noteq> Some ''snowflake''"
  then show "get_dialect_functions d = COMMON_FUNCTIONS"
    by (simp add: get_dialect_functions_def)
  from h show "f \<in> set (detect_phantom_functions fs d schema) \<longleftrightarrow>
           f \<in> set fs \<and> upper f \<notin> COMMON_FUNCTIONS
           \<and> upper f \<notin> (case SchemaSnapshot.functions schema of None \<Rightarrow> {} | Some custom \<Rightarrow> set (map upper custom))
           \<and> \<not> is_function_alias (upper f) (valid_functions_for d schema)"
    by (auto simp: detect_phantom_functions_filter valid_functions_for_unfold)
next
  assume "d \<in> set [''postgres'', ''mysql'', ''sqlite'', ''duckdb'', ''clickhouse'']"
  then have "normalize_dialect d = Some d"
    by (auto simp: normalize_dialect_def DIALECT_MAP_def string_eval)
  then show "normalize_dialect d = Some d" .
next
  assume "d \<in> set [''postgres'', ''mysql'', ''sqlite'', ''duckdb'', ''clickhouse'']"
  then have "normalize_dialect d = Some d \<and> d \<noteq> ''bigquery'' \<and> d \<noteq> ''snowflake''"
    by (auto simp: normalize_dialect_def DIALECT_MAP_def string_eval)
  then show "get_dialect_functions d = COMMON_FUNCTIONS"
    by (simp add: get_dialect_functions_def)
qed

text \<open>C10 at the dialects \<open>mysql\<close> and \<open>oracle\<close>, with the snowflake function \<open>DATEADD\<close>.\<close>

theorem other_dialects_common_functions_witness:
  "get_dialect_functions ''mysql'' = COMMON_FUNCTIONS
   \<and> get_dialect_functions ''oracle'' = COMMON_FUNCTIONS
   \<and> ''DATEADD'' \<in> set (detect_phantom_functions [''COUNT'', ''DATEADD''] ''oracle'' (SchemaSnapshot_init []))"
proof -
  have o: "normalize_dialect ''oracle'' = Some ''oracle''"
    by (simp add: normalize_dialect_def DIALECT_MAP_def string_eval)
  have u: "upper ''DATEADD'' = ''DATEADD''" by (simp add: string_eval)
  have n: "''DATEADD'' \<notin> COMMON_FUNCTIONS" by (simp add: COMMON_FUNCTIONS_def)
  have a: "\<not> is_function_alias ''DATEADD'' (valid_functions_for ''oracle'' (SchemaSnapshot_init []))"
    by (simp add: is_function_alias_def function_aliases_def)
  have 1: "get_dialect_functions ''mysql'' = COMMON_FUNCTIONS"
    using other_dialects_common_functions[THEN conjunct2, of "''mysql''"] by simp
  have 2: "get_dialect_functions ''oracle'' = COMMON_FUNCTIONS
    \<and> ''DATEADD'' \<in> set (detect_phantom_functions [''COUNT'', ''DATEADD''] ''oracle'' (SchemaSnapshot_init []))"
    using other_dialects_common_functions[THEN conjunct1,
        of "''oracle''" "''DATEADD''" "[''COUNT'', ''DATEADD'']" "SchemaSnapshot_init []"] o u n a
    by (simp add: SchemaSnapshot_init_def)
  from 1 2 show ?thesis by blast
qed

section \<open>Parsing, then detection\<close>

lemma parse_Inr_iff:
  "parse lib self sql d = Inr p \<longleftrightarrow>
     parse_ast lib sql (or_else (normalize_dialect d) (default_dialect self)) = Inr (ast p)
     \<and> p = \<lparr>ast = ast p,
             dialect = (case or_else (or_else (normalize_dialect d) (default_dialect self)) (Some ''auto'') of
                          Some n \<Rightarrow> n | None \<Rightarrow> []),
             tables = IdentifierSet.tables (extract_all_identifiers (ast p)),
             columns = IdentifierSet.columns (extract_all_identifiers (ast p)),
             functions = IdentifierSet.functions (extract_all_identifiers (ast p)),
             aliases = IdentifierSet.aliases (extract_all_identifiers (ast p)),
             raw_sql = sql\<rparr>"
  by (cases "parse_ast lib sql (or_else (normalize_dialect d) (default_dialect self))")
     (auto simp: parse_def Let_def)

lemma parse_Inl_iff:
  "parse lib self sql d = Inl e \<longleftrightarrow>
     parse_ast lib sql (or_else (normalize_dialect d) (default_dialect self)) = Inl e"
  by (cases "parse_ast lib sql (or_else (normalize_dialect d) (default_dialect self))")
     (auto simp: parse_def Let_def)

lemma extract_identifiers_of_parse:
  "extract_identifiers lib self sql d =
     (case parse lib self sql d of
        Inl e \<Rightarrow> Inl e
      | Inr p \<Rightarrow> Inr (extract_all_identifiers (ast p)))"
proof (cases "parse lib self sql d")
  case (Inl e)
  then show ?thesis by (simp add: extract_identifiers_def)
next
  case (Inr p)
  then have "p = \<lparr>ast = ast p,
             dialect = (case or_else (or_else (normalize_dialect d) (default_dialect self)) (Some ''auto'') of
                          Some n \<Rightarrow> n | None \<Rightarrow> []),
             tables = IdentifierSet.tables (extract_all_identifiers (ast p)),
             columns = IdentifierSet.columns (extract_all_identifiers (ast p)),
             functions = IdentifierSet.functions (extract_all_identifiers (ast p)),
             aliases = IdentifierSet.aliases (extract_all_identifiers (ast p)),
             raw_sql = sql\<rparr>"
    by (simp add: parse_Inr_iff)
  then have "ParsedSQL.tables p = IdentifierSet.tables (extract_all_identifiers (ast p))"
    "ParsedSQL.columns p = IdentifierSet.columns (extract_all_identifiers (ast p))"
    "ParsedSQL.functions p = IdentifierSet.functions (extract_all_identifiers (ast p))"
    "ParsedSQL.aliases p = IdentifierSet.aliases (extract_all_identifiers (ast p))"
    by (metis ParsedSQL.select_convs(3), metis ParsedSQL.select_convs(4),
        metis ParsedSQL.select_convs(5), metis ParsedSQL.select_convs(6))
  with Inr show ?thesis by (simp add: extract_identifiers_def)
qed

lemma detect_of_parse:
  "detect lib sql schema d =
     (case parse lib HallucinationDetector_parser sql d of
        Inl e \<Rightarrow> Inl e
      | Inr p \<Rightarrow>
          (let ids = extract_all_identifiers (ast p);
               pt = detect_phantom_tables (IdentifierSet.tables ids) schema;
               pc = detect_phantom_columns (IdentifierSet.columns ids) (IdentifierSet.tables ids)
                      (IdentifierSet.aliases ids) schema;
               pf = detect_phantom_functions (IdentifierSet.functions ids) d schema
           in Inr (HallucinationReport_init pt pc pf
                    (real (length pt + length pc + length pf)
                     / real (max 1 (length (IdentifierSet.tables ids) + length (IdentifierSet.columns ids)
                                    + length (IdentifierSet.functions ids)))))))"
  by (simp add: detect_def extract_identifiers_of_parse Let_def split: sum.splits)

lemma detect_phantom_tables_length: "length (detect_phantom_tables ts schema) \<le> length ts"
  by (simp add: detect_phantom_tables_filter)

lemma detect_phantom_columns_length: "length (detect_phantom_columns cs ts al schema) \<le> length cs"
  by (simp add: detect_phantom_columns_filter)

lemma detect_phantom_functions_length: "length (detect_phantom_functions fs d schema) \<le> length fs"
  by (simp add: detect_phantom_functions_filter)

section \<open>The hallucination score\<close>

text \<open>
  C3. Whenever \<open>detect\<close> returns a report, its score is the number of phantom tables,
  columns and functions divided by the maximum of 1 and the number of extracted tables,
  columns and functions; the divisor is never 0; the score lies between 0 and 1; and it
  is 0 when nothing was extracted.
\<close>

theorem hallucination_score_formula:
  assumes "detect lib sql schema d = Inr report"
  shows "\<exists>ids. extract_identifiers lib HallucinationDetector_parser sql d = Inr ids
     \<and> hallucination_score report =
         real (length (phantom_tables report) + length (phantom_columns report)
               + length (phantom_functions report))
         / real (max 1 (length (IdentifierSet.tables ids) + length (IdentifierSet.columns ids)
                        + length (IdentifierSet.functions ids)))
     \<and> 0 < max 1 (length (IdentifierSet.tables ids) + length (IdentifierSet.columns ids)
                   + length (IdentifierSet.functions ids))
     \<and> 0 \<le> hallucination_score report \<and> hallucination_score report \<le> 1
     \<and> (length (IdentifierSet.tables ids) + length (IdentifierSet.columns ids)
         + length (IdentifierSet.functions ids) = 0 \<longrightarrow> hallucination_score report = 0)"
proof -
  from assms obtain p where p: "parse lib HallucinationDetector_parser sql d = Inr p"
    by (auto simp: detect_of_parse split: sum.splits)
  define ids where "ids = extract_all_identifiers (ast p)"
  define pt where "pt = detect_phantom_tables (IdentifierSet.tables ids) schema"
  define pc where "pc = detect_phantom_columns (IdentifierSet.columns ids) (IdentifierSet.tables ids)
                      (IdentifierSet.aliases ids) schema"
  define pf where "pf = detect_phantom_functions (IdentifierSet.functions ids) d schema"
  define n where "n = length (IdentifierSet.tables ids) + length (IdentifierSet.columns ids)
                      + length (IdentifierSet.functions ids)"
  have rep: "report = HallucinationReport_init pt pc pf (real (length pt + length pc + length pf) / real (max 1 n))"
    using assms p by (simp add: detect_of_parse Let_def ids_def pt_def pc_def pf_def n_def)
  have ex: "extract_identifiers lib HallucinationDetector_parser sql d = Inr ids"
    using p by (simp add: extract_identifiers_of_parse ids_def)
  have le: "length pt + length pc + length pf \<le> n"
    unfolding pt_def pc_def pf_def n_def
    using detect_phantom_tables_length[of "IdentifierSet.tables ids" schema]
      detect_phantom_columns_length[of "IdentifierSet.columns ids" "IdentifierSet.tables ids" "IdentifierSet.aliases ids" schema]
      detect_phantom_functions_length[of "IdentifierSet.functions ids" d schema]
    by linarith
  have fields: "phantom_tables report = pt" "phantom_columns report = pc" "phantom_functions report = pf"
    "hallucination_score report = real (length pt + length pc + length pf) / real (max 1 n)"
    by (simp_all add: rep HallucinationReport_init_def)
  have lo: "0 \<le> hallucination_score report" by (simp add: fields)
  have "real (length pt + length pc + length pf) \<le> real (max 1 n)" using le by simp
  then have hi: "hallucination_score report \<le> 1" by (simp add: fields(4) divide_le_eq_1)
  have zero: "n = 0 \<longrightarrow> hallucination_score report = 0" using le by (auto simp: fields(4))
  show ?thesis
    using ex fields lo hi zero unfolding n_def by (intro exI[of _ ids]) simp
qed

section \<open>The customers scenario\<close>

lemma scenario_call_parse_one:
  "call_parse_one scenario_lib sql nd =
     (case map_of scenario_trees sql of Some t \<Rightarrow> Inr t | None \<Rightarrow> Inl ParseError)"
  by (simp add: call_parse_one_def scenario_lib_def)

lemma parse_ast_primary: "call_parse_one lib sql nd = Inr t \<Longrightarrow> parse_ast lib sql nd = Inr t"
  by (simp add: parse_ast_def)

lemma parse_primary:
  assumes "call_parse_one lib sql (or_else (normalize_dialect d) (default_dialect self)) = Inr t"
  shows "\<exists>p. parse lib self sql d = Inr p \<and> ast p = t"
  using parse_ast_primary[OF assms] by (simp add: parse_def Let_def)

lemmas scenario_queries = customers_query_def ghost_query_def orders_query_mixed_def
  orders_query_lower_def join_query_def

lemma scenario_parse_customers:
  "\<exists>p. parse scenario_lib self customers_query d = Inr p \<and> ast p = customers_query_tree"
  by (rule parse_primary) (simp add: scenario_call_parse_one scenario_trees_def scenario_queries)

lemma extract_customers:
  "extract_all_identifiers customers_query_tree =
     \<lparr>IdentifierSet.tables = [''customers''], columns = [''name'', ''age''],
      functions = [], aliases = []\<rparr>"
  by (simp add: extract_all_identifiers_def customers_query_tree_def table_full_name_def
      column_full_name_def Let_def)

lemma customers_phantom_tables: "detect_phantom_tables [''customers''] customers_schema = []"
  by (simp add: detect_phantom_tables_def customers_schema_def SchemaSnapshot_init_def)

lemma customers_phantom_columns:
  "detect_phantom_columns [''name'', ''age''] [''customers''] [] customers_schema = [''age'']"
  by (simp add: detect_phantom_columns_def referenced_columns_def aliased_columns_def
      get_table_def found_anywhere_def customers_schema_def SchemaSnapshot_init_def Let_def
      string_eval)

lemma no_functions_no_phantoms: "detect_phantom_functions [] d schema = []"
  by (simp add: detect_phantom_functions_def)

lemma detect_customers:
  "detect scenario_lib customers_query customers_schema [] =
     Inr \<lparr>phantom_tables = [], phantom_columns = [''age''], phantom_functions = [],
          total_hallucinations = 1, hallucination_score = 1 / 3\<rparr>"
proof -
  obtain p where "parse scenario_lib HallucinationDetector_parser customers_query [] = Inr p"
    "ast p = customers_query_tree"
    using scenario_parse_customers by blast
  then show ?thesis
    by (simp add: detect_of_parse extract_customers customers_phantom_tables
      customers_phantom_columns no_functions_no_phantoms HallucinationReport_init_def)
qed

text \<open>
  C3 on the customers scenario: one table and two columns extracted, one phantom.
\<close>

theorem hallucination_score_formula_witness:
  "\<exists>report ids. detect scenario_lib customers_query customers_schema [] = Inr report
     \<and> extract_identifiers scenario_lib HallucinationDetector_parser customers_query [] = Inr ids
     \<and> length (IdentifierSet.tables ids) + length (IdentifierSet.columns ids)
       + length (IdentifierSet.functions ids) = 3
     \<and> hallucination_score report = 1 / 3
     \<and> 0 \<le> hallucination_score report \<and> hallucination_score report \<le> 1"
proof -
  obtain p where p: "parse scenario_lib HallucinationDetector_parser customers_query [] = Inr p"
    "ast p = customers_query_tree"
    using scenario_parse_customers by blast
  then have ids: "extract_identifiers scenario_lib HallucinationDetector_parser customers_query [] =
     Inr \<lparr>IdentifierSet.tables = [''customers''], columns = [''name'', ''age''],
      functions = [], aliases = []\<rparr>"
    by (simp add: extract_identifiers_of_parse extract_customers)
  from hallucination_score_formula[OF detect_customers] ids
  show ?thesis by (intro exI) (auto simp: detect_customers)
qed

text \<open>
  C4, as the code has it. For the schema with exactly the table customers(id, name,
  email), whenever the parse of \<open>SELECT name, age FROM customers\<close> yields its tree
  (the table reference customers, the column references name and age), \<open>detect\<close>
  reports the phantom columns \<open>[age]\<close>, no phantom table, no phantom function, and
  the score 1/3: one phantom among three identifiers, the table reference counted.
\<close>

theorem customers_scenario:
  assumes "parse lib HallucinationDetector_parser customers_query d = Inr p"
    and "ast p = customers_query_tree"
  shows "\<exists>report. detect lib customers_query customers_schema d = Inr report
     \<and> phantom_columns report = [''age''] \<and> phantom_tables report = []
     \<and> phantom_functions report = [] \<and> total_hallucinations report = 1
     \<and> hallucination_score report = 1 / 3"
  using assms
  by (simp add: detect_of_parse extract_customers customers_phantom_tables
      customers_phantom_columns no_functions_no_phantoms HallucinationReport_init_def)

text \<open>
  C4, as stated, fails: on the scenario the score is 1/3, not 1/2.
\<close>

theorem customers_score_is_a_third:
  "map_sum id hallucination_score (detect scenario_lib customers_query customers_schema []) = Inr (1 / 3)
   \<and> map_sum id hallucination_score (detect scenario_lib customers_query customers_schema []) \<noteq> Inr (1 / 2)"
  by (simp add: detect_customers)

text \<open>C4 on the scenario under the dialect \<open>postgres\<close>.\<close>

theorem customers_scenario_witness:
  "\<exists>report. detect scenario_lib customers_query customers_schema ''postgres'' = Inr report
     \<and> phantom_columns report = [''age''] \<and> phantom_tables report = []
     \<and> hallucination_score report = 1 / 3"
proof -
  obtain p where p: "parse scenario_lib HallucinationDetector_parser customers_query ''postgres'' = Inr p"
    "ast p = customers_query_tree"
    using scenario_parse_customers by blast
  from customers_scenario[OF p] show ?thesis by blast
qed

section \<open>Validation\<close>

lemma validate_of_detect:
  "validate lib sql schema d =
     (case detect lib sql schema d of
        Inl e \<Rightarrow> Inl e
      | Inr report \<Rightarrow>
          Inr \<lparr>is_valid = (phantom_tables report = [] \<and> phantom_columns report = []),
               errors = map table_error (phantom_tables report) @ map column_error (phantom_columns report),
               warnings = map (function_warning d) (phantom_functions report),
               hallucination_report = Some report\<rparr>)"
  by (simp add: validate_def Let_def fold_append_map split: sum.splits)

lemma scenario_parse_ghost:
  "\<exists>p. parse scenario_lib self ghost_query d = Inr p \<and> ast p = ghost_query_tree"
  by (rule parse_primary) (simp add: scenario_call_parse_one scenario_trees_def scenario_queries)

lemma extract_ghost:
  "extract_all_identifiers ghost_query_tree =
     \<lparr>IdentifierSet.tables = [''ghost_table''], columns = [], functions = [], aliases = []\<rparr>"
  by (simp add: extract_all_identifiers_def ghost_query_tree_def table_full_name_def Let_def)

lemma ghost_phantom_tables:
  "\<not> has_table schema ''ghost_table'' \<Longrightarrow> detect_phantom_tables [''ghost_table''] schema = [''ghost_table'']"
  by (simp add: detect_phantom_tables_def)

lemma no_columns_no_phantoms: "detect_phantom_columns [] ts al schema = []"
  by (simp add: detect_phantom_columns_def)

text \<open>
  C6. \<open>validate\<close> raises exactly when \<open>detect\<close> does. When it returns, its
  result embeds the report of \<open>detect\<close>; the errors are one string per phantom
  table followed by one string per phantom column; the warnings are one string per
  phantom function; and \<open>is_valid\<close> holds iff there is no error, that is iff there is
  no phantom table and no phantom column, whatever the phantom functions. For
  \<open>SELECT * FROM ghost_table\<close>, whenever the parse yields its tree (the table
  reference ghost\_table and nothing else) and the schema has no table ghost\_table,
  the result is invalid with the single error
  \<open>Table 'ghost_table' does not exist in schema\<close>.
\<close>

theorem validate_wraps_detect:
  "(validate lib sql schema d = Inl e \<longleftrightarrow> detect lib sql schema d = Inl e)
   \<and> (validate lib sql schema d = Inr r \<longrightarrow>
        (\<exists>report. detect lib sql schema d = Inr report
           \<and> hallucination_report r = Some report
           \<and> errors r = map table_error (phantom_tables report) @ map column_error (phantom_columns report)
           \<and> length (errors r) = length (phantom_tables report) + length (phantom_columns report)
           \<and> warnings r = map (function_warning d) (phantom_functions report)
           \<and> length (warnings r) = length (phantom_functions report)
           \<and> (is_valid r \<longleftrightarrow> errors r = [])
           \<and> (is_valid r \<longleftrightarrow> phantom_tables report = [] \<and> phantom_columns report = [])))
   \<and> (parse lib HallucinationDetector_parser ghost_query d = Inr p \<and> ast p = ghost_query_tree
        \<and> \<not> has_table schema ''ghost_table'' \<longrightarrow>
        (\<exists>r report. validate lib ghost_query schema d = Inr r
           \<and> hallucination_report r = Some report
           \<and> phantom_tables report = [''ghost_table'']
           \<and> \<not> is_valid r
           \<and> errors r = [''Table '' @ [CHR 0x27] @ ''ghost_table'' @ [CHR 0x27] @ '' does not exist in schema'']))"
proof (intro conjI impI)
  show "validate lib sql schema d = Inl e \<longleftrightarrow> detect lib sql schema d = Inl e"
    by (simp add: validate_of_detect split: sum.splits)
next
  assume "validate lib sql schema d = Inr r"
  then obtain report where rep: "detect lib sql schema d = Inr report"
    and r: "r = \<lparr>is_valid = (phantom_tables report = [] \<and> phantom_columns report = []),
               errors = map table_error (phantom_tables report) @ map column_error (phantom_columns report),
               warnings = map (function_warning d) (phantom_functions report),
               hallucination_report = Some report\<rparr>"
    by (auto simp: validate_of_detect split: sum.splits)
  show "\<exists>report. detect lib sql schema d = Inr report
           \<and> hallucination_report r = Some report
           \<and> errors r = map table_error (phantom_tables report) @ map column_error (phantom_columns report)
           \<and> length (errors r) = length (phantom_tables report) + length (phantom_columns report)
           \<and> warnings r = map (function_warning d) (phantom_functions report)
           \<and> length (warnings r) = length (phantom_functions report)
           \<and> (is_valid r \<longleftrightarrow> errors r = [])
           \<and> (is_valid r \<longleftrightarrow> phantom_tables report = [] \<and> phantom_columns report = [])"
    by (rule exI[of _ report]) (simp add: rep r)
next
  assume a: "parse lib HallucinationDetector_parser ghost_query d = Inr p \<and> ast p = ghost_query_tree
        \<and> \<not> has_table schema ''ghost_table''"
  then have "detect lib ghost_query schema d =
      Inr (HallucinationReport_init [''ghost_table''] [] [] 1)"
    by (simp add: detect_of_parse extract_ghost ghost_phantom_tables no_columns_no_phantoms
        no_functions_no_phantoms)
  then show "\<exists>r report. validate lib ghost_query schema d = Inr r
           \<and> hallucination_report r = Some report
           \<and> phantom_tables report = [''ghost_table'']
           \<and> \<not> is_valid r
           \<and> errors r = [''Table '' @ [CHR 0x27] @ ''ghost_table'' @ [CHR 0x27] @ '' does not exist in schema'']"
    by (simp add: validate_of_detect HallucinationReport_init_def table_error_def quoted_def)
qed

text \<open>C6 on the ghost-table scenario, against the customers schema.\<close>

theorem validate_wraps_detect_witness:
  "\<exists>r report. validate scenario_lib ghost_query customers_schema [] = Inr r
     \<and> detect scenario_lib ghost_query customers_schema [] = Inr report
     \<and> hallucination_report r = Some report
     \<and> phantom_tables report = [''ghost_table'']
     \<and> length (errors r) = 1 \<and> warnings r = []
     \<and> \<not> is_valid r
     \<and> errors r = [''Table '' @ [CHR 0x27] @ ''ghost_table'' @ [CHR 0x27] @ '' does not exist in schema'']"
proof -
  obtain p where p: "parse scenario_lib HallucinationDetector_parser ghost_query [] = Inr p"
    "ast p = ghost_query_tree"
    using scenario_parse_ghost by blast
  have h: "\<not> has_table customers_schema ''ghost_table''"
    by (simp add: customers_schema_def SchemaSnapshot_init_def string_eval)
  from validate_wraps_detect[THEN conjunct2, THEN conjunct2, of scenario_lib "[]" p customers_schema] p h
  obtain r report where r: "validate scenario_lib ghost_query customers_schema [] = Inr r"
    "hallucination_report r = Some report" "phantom_tables report = [''ghost_table'']"
    "\<not> is_valid r"
    "errors r = [''Table '' @ [CHR 0x27] @ ''ghost_table'' @ [CHR 0x27] @ '' does not exist in schema'']"
    by blast
  from validate_wraps_detect[THEN conjunct2, THEN conjunct1, of scenario_lib ghost_query customers_schema "[]" r] r(1)
  obtain report' where r': "detect scenario_lib ghost_query customers_schema [] = Inr report'"
    "hallucination_report r = Some report'"
    "warnings r = map (function_warning []) (phantom_functions report')"
    "length (warnings r) = length (phantom_functions report')"
    "is_valid r \<longleftrightarrow> phantom_tables report' = [] \<and> phantom_columns report' = []"
    by blast
  have "phantom_functions report' = []"
    using r' p by (auto simp: detect_of_parse extract_ghost no_functions_no_phantoms HallucinationReport_init_def Let_def)
  with r r' show ?thesis by (intro exI[of _ r] exI[of _ report']) auto
qed

section \<open>Join path verification\<close>

lemma fold_keep: "fold (\<lambda>(l, r) acc. acc) xs acc = acc"
  by (induction xs arbitrary: acc) auto

lemma verify_single_join_Nil: "verify_single_join join schema = []"
  by (simp add: verify_single_join_def Let_def fold_keep split: option.splits)

lemma fold_append_Nil: "fold (\<lambda>x acc. acc) xs acc = acc"
  by (induction xs arbitrary: acc) auto

lemma verify_of_parse:
  "verify lib sql schema d =
     (case parse lib JoinPathVerifier_parser sql d of
        Inl e \<Rightarrow> Inl e
      | Inr p \<Rightarrow> Inr \<lparr>is_valid = True, errors = [], warnings = [], hallucination_report = None\<rparr>)"
  by (simp add: verify_def Let_def verify_single_join_Nil fold_append_Nil split: sum.splits)

lemma scenario_parse_join:
  "\<exists>p. parse scenario_lib self join_query d = Inr p \<and> ast p = join_query_tree"
  by (rule parse_primary) (simp add: scenario_call_parse_one scenario_trees_def scenario_queries)

lemma join_pairs:
  "map (\<lambda>j. map_option extract_join_columns (on_eqs j)) (find_all_Join join_query_tree) =
     [Some [(''customers.id'', ''orders.total'')]]"
  by (simp add: join_query_tree_def extract_join_columns_def)

lemma join_pair_invalid: "\<not> is_valid_join_path ''customers.id'' ''orders.total'' join_schema"
  by (simp add: is_valid_join_path_def has_fk_to_def join_schema_def SchemaSnapshot_init_def
      Let_def truthy_def string_eval)

lemma join_pair_valid: "is_valid_join_path ''customers.id'' ''orders.customer_id'' join_schema"
  by (simp add: is_valid_join_path_def has_fk_to_def join_schema_def SchemaSnapshot_init_def
      Let_def truthy_def string_eval)

text \<open>
  C8. For every SQL string, schema and dialect string, \<open>verify\<close> hands on the
  outcome of the parse: when the parse returns, the result is valid with no error and
  no warning, whatever the joins of the tree and the foreign keys of the schema; the
  validity computed for each pair of join columns never reaches the result. (When the
  parse raises, so does \<open>verify\<close>.)
\<close>

theorem verify_reports_nothing:
  "verify lib sql schema d =
     (case parse lib JoinPathVerifier_parser sql d of
        Inl e \<Rightarrow> Inl e
      | Inr p \<Rightarrow> Inr \<lparr>is_valid = True, errors = [], warnings = [], hallucination_report = None\<rparr>)"
  by (rule verify_of_parse)

text \<open>
  C8 on a join whose condition \<open>customers.id = orders.total\<close> follows no foreign
  key: the pair is found invalid, and the result is valid all the same.
\<close>

theorem verify_reports_nothing_witness:
  "verify scenario_lib join_query join_schema [] =
     Inr \<lparr>is_valid = True, errors = [], warnings = [], hallucination_report = None\<rparr>
   \<and> map (\<lambda>j. map_option extract_join_columns (on_eqs j)) (find_all_Join join_query_tree) =
       [Some [(''customers.id'', ''orders.total'')]]
   \<and> \<not> is_valid_join_path ''customers.id'' ''orders.total'' join_schema"
proof -
  obtain p where p: "parse scenario_lib JoinPathVerifier_parser join_query [] = Inr p"
    using scenario_parse_join by blast
  with verify_reports_nothing[of scenario_lib join_query join_schema "[]"]
  show ?thesis by (simp add: join_pairs join_pair_invalid)
qed

section \<open>What a call returns and what it raises\<close>

lemma try_fallbacks_find:
  "try_fallbacks lib sql nd fs =
     (case find (\<lambda>f. f \<noteq> nd \<and> \<not> isl (call_parse_one lib sql f)) fs of
        Some f \<Rightarrow> (case call_parse_one lib sql f of Inr t \<Rightarrow> Some t | Inl e \<Rightarrow> None)
      | None \<Rightarrow> None)"
  by (induction fs) (auto split: sum.splits)

lemma parse_with_fallback_find:
  "parse_with_fallback lib sql nd =
     (case find (\<lambda>f. f \<noteq> nd \<and> \<not> isl (call_parse_one lib sql f)) fallback_dialects of
        Some f \<Rightarrow> call_parse_one lib sql f
      | None \<Rightarrow> parse_one_ignore lib sql)"
proof (cases "find (\<lambda>f. f \<noteq> nd \<and> \<not> isl (call_parse_one lib sql f)) fallback_dialects")
  case None
  then show ?thesis by (simp add: parse_with_fallback_def try_fallbacks_find)
next
  case (Some f)
  then have "\<not> isl (call_parse_one lib sql f)" by (auto dest: find_Some_iff[THEN iffD1])
  with Some show ?thesis
    by (cases "call_parse_one lib sql f") (simp_all add: parse_with_fallback_def try_fallbacks_find)
qed

lemma map_sum_ast_parse:
  "map_sum id ast (parse lib self sql d) =
     parse_ast lib sql (or_else (normalize_dialect d) (default_dialect self))"
  by (cases "parse_ast lib sql (or_else (normalize_dialect d) (default_dialect self))")
     (simp_all add: parse_def Let_def)

lemma detect_Inl_iff:
  "detect lib sql schema d = Inl e \<longleftrightarrow> parse lib HallucinationDetector_parser sql d = Inl e"
  by (simp add: detect_of_parse Let_def split: sum.splits)

lemma validate_Inl_iff:
  "validate lib sql schema d = Inl e \<longleftrightarrow> parse lib HallucinationDetector_parser sql d = Inl e"
proof -
  have "validate lib sql schema d = Inl e \<longleftrightarrow> detect lib sql schema d = Inl e"
    by (cases "detect lib sql schema d") (simp_all add: validate_of_detect)
  then show ?thesis by (simp add: detect_Inl_iff)
qed

lemma scenario_parse_one_ignore:
  "parse_one_ignore scenario_lib sql =
     (case map_of scenario_trees sql of Some t \<Rightarrow> Inr t | None \<Rightarrow> Inl ParseError)"
  by (simp add: scenario_lib_def)

lemma scenario_trees_empty: "map_of scenario_trees [] = None"
  by (simp add: scenario_trees_def scenario_queries)

lemma parse_empty_sql: "parse scenario_lib self [] d = Inl ParseError"
  by (simp add: parse_Inl_iff parse_ast_def parse_with_fallback_def fallback_dialects_def
      scenario_call_parse_one scenario_parse_one_ignore scenario_trees_empty)

text \<open>
  The outcome of \<open>parse\<close>, tree or exception: that of the first attempt when it
  returns or raises something other than \<open>ParseError\<close>; after a \<open>ParseError\<close>,
  the tree of the first dialect of the fallback list, in its order and leaving out the
  dialect already attempted, whose attempt returns; and when no such attempt returns,
  the outcome of the error-tolerant call. The other operations raise exactly when their
  parse does.
\<close>

lemma parse_outcome:
  "map_sum id ast (parse lib self sql d) =
     (let nd = or_else (normalize_dialect d) (default_dialect self)
      in (case call_parse_one lib sql nd of
            Inr t \<Rightarrow> Inr t
          | Inl OtherError \<Rightarrow> Inl OtherError
          | Inl ParseError \<Rightarrow>
              (case find (\<lambda>f. f \<noteq> nd \<and> \<not> isl (call_parse_one lib sql f)) fallback_dialects of
                 Some f \<Rightarrow> call_parse_one lib sql f
               | None \<Rightarrow> parse_one_ignore lib sql)))
   \<and> fallback_dialects = [Some ''postgres'', Some ''bigquery'', Some ''snowflake'', None]
   \<and> (extract_identifiers lib self sql d = Inl e \<longleftrightarrow> parse lib self sql d = Inl e)
   \<and> (detect lib sql schema d = Inl e \<longleftrightarrow> parse lib HallucinationDetector_parser sql d = Inl e)
   \<and> (validate lib sql schema d = Inl e \<longleftrightarrow> parse lib HallucinationDetector_parser sql d = Inl e)
   \<and> (verify lib sql schema d = Inl e \<longleftrightarrow> parse lib JoinPathVerifier_parser sql d = Inl e)"
proof (intro conjI)
  show "map_sum id ast (parse lib self sql d) =
     (let nd = or_else (normalize_dialect d) (default_dialect self)
      in (case call_parse_one lib sql nd of
            Inr t \<Rightarrow> Inr t
          | Inl OtherError \<Rightarrow> Inl OtherError
          | Inl ParseError \<Rightarrow>
              (case find (\<lambda>f. f \<noteq> nd \<and> \<not> isl (call_parse_one lib sql f)) fallback_dialects of
                 Some f \<Rightarrow> call_parse_one lib sql f
               | None \<Rightarrow> parse_one_ignore lib sql)))"
    by (simp add: map_sum_ast_parse parse_ast_def parse_with_fallback_find Let_def
        split: sum.splits exn.splits)
  show "fallback_dialects = [Some ''postgres'', Some ''bigquery'', Some ''snowflake'', None]"
    by (rule fallback_dialects_def)
  show "extract_identifiers lib self sql d = Inl e \<longleftrightarrow> parse lib self sql d = Inl e"
    by (simp add: extract_identifiers_of_parse split: sum.splits)
  show "detect lib sql schema d = Inl e \<longleftrightarrow> parse lib HallucinationDetector_parser sql d = Inl e"
    by (rule detect_Inl_iff)
  show "validate lib sql schema d = Inl e \<longleftrightarrow> parse lib HallucinationDetector_parser sql d = Inl e"
    by (rule validate_Inl_iff)
  show "verify lib sql schema d = Inl e \<longleftrightarrow> parse lib JoinPathVerifier_parser sql d = Inl e"
    by (simp add: verify_of_parse split: sum.splits)
qed

text \<open>
  C1 requires that no operation hands an exception to its caller, and that an
  error-tolerant parse is returned when every attempt fails. On the empty SQL text the
  code does not: the text holds no statement, the first attempt and every fallback
  attempt raise \<open>ParseError\<close>, the error-tolerant call after the loop, which stands
  outside any \<open>try\<close>, raises it too, and \<open>parse\<close>, \<open>extract_identifiers\<close>,
  \<open>detect\<close>, \<open>validate\<close> and \<open>verify\<close> each hand it to the caller.
\<close>

theorem empty_sql_raises:
  "parse scenario_lib (SQLParser_init []) [] [] = Inl ParseError
   \<and> extract_identifiers scenario_lib (SQLParser_init []) [] [] = Inl ParseError
   \<and> detect scenario_lib [] customers_schema [] = Inl ParseError
   \<and> validate scenario_lib [] customers_schema [] = Inl ParseError
   \<and> verify scenario_lib [] customers_schema [] = Inl ParseError"
  by (simp add: parse_empty_sql extract_identifiers_of_parse detect_Inl_iff validate_Inl_iff
      verify_of_parse)

text \<open>
  The outcome of \<open>parse\<close> under the dialect \<open>mysql\<close>: a call whose first attempt
  returns, one where every attempt raises, and one where the second fallback dialect
  returns.
\<close>

lemma parse_outcome_examples:
  "map_sum id ast (parse scenario_lib (SQLParser_init []) ghost_query ''mysql'') = Inr ghost_query_tree
   \<and> map_sum id ast (parse scenario_lib (SQLParser_init []) [] ''mysql'') = Inl ParseError
   \<and> map_sum id ast (parse (bigquery_only_lib ghost_query_tree) (SQLParser_init []) ghost_query ''mysql'')
       = Inr ghost_query_tree"
proof -
  have 1: "call_parse_one scenario_lib ghost_query nd = Inr ghost_query_tree" for nd
    by (simp add: scenario_call_parse_one scenario_trees_def scenario_queries)
  have 2: "call_parse_one scenario_lib [] nd = Inl ParseError" for nd
    by (simp add: scenario_call_parse_one scenario_trees_empty)
  have 3: "parse_one_ignore scenario_lib [] = Inl ParseError"
    by (simp add: scenario_parse_one_ignore scenario_trees_empty)
  have 4: "call_parse_one (bigquery_only_lib ghost_query_tree) ghost_query nd =
             (if nd = Some ''bigquery'' then Inr ghost_query_tree else Inl ParseError)" for nd
    by (auto simp: call_parse_one_def bigquery_only_lib_def truthy_def)
  have my: "normalize_dialect ''mysql'' = Some ''mysql''"
    by (simp add: normalize_dialect_def DIALECT_MAP_def string_eval)
  have a: "map_sum id ast (parse scenario_lib (SQLParser_init []) ghost_query ''mysql'') = Inr ghost_query_tree"
    using parse_outcome[THEN conjunct1, of scenario_lib "SQLParser_init []" ghost_query "''mysql''"]
    by (simp add: 1 Let_def)
  have b: "map_sum id ast (parse scenario_lib (SQLParser_init []) [] ''mysql'') = Inl ParseError"
    using parse_outcome[THEN conjunct1, of scenario_lib "SQLParser_init []" "[]" "''mysql''"]
    by (simp add: 2 3 Let_def fallback_dialects_def)
  have c: "map_sum id ast (parse (bigquery_only_lib ghost_query_tree) (SQLParser_init []) ghost_query ''mysql'')
       = Inr ghost_query_tree"
    using parse_outcome[THEN conjunct1, of "bigquery_only_lib ghost_query_tree" "SQLParser_init []"
        ghost_query "''mysql''"]
    by (simp add: 4 my or_else_def truthy_def Let_def fallback_dialects_def)
  from a b c show ?thesis by blast
qed

section \<open>Letter case in the query text\<close>





















end
